theory Spec2Isabelle
  imports Complex_Main "HOL-Library.Multiset"
begin

section \<open>The asset generator \<^verbatim>\<open>Assets/generate_assets.py\<close>\<close>

text \<open>
  The script draws images with an imaging library and saves them as PNG files below
  \<^verbatim>\<open>ASSETS_DIR\<close>. The embedding keeps what the script computes itself: the
  tables, the loops, the arithmetic of every coordinate and colour, the file names, the
  order of the file-system calls, the font fallback chains and the seeding of the random
  generator. The library calls are recorded, not interpreted: an image is the canvas it
  was created as together with the sequence of draw calls issued on it; creating a canvas,
  drawing on it and measuring a text are taken to succeed. The progress
  messages printed to the console are left out, and so is \<^verbatim>\<open>create_rounded_rect\<close>,
  which no routine calls.
\<close>

subsection \<open>Images and draw calls\<close>

text \<open>
  A colour as it is passed to the library: a hex string, an RGB or RGBA tuple, or a single
  band value (the mask of the application icon).
\<close>

datatype color = Hex string | RGB int int int | RGBA int int int int | Gray int

text \<open>
  A text is a sequence of Unicode code points (the piece names are CJK characters);
  file names and paths are ASCII strings.
\<close>

type_synonym glyphs = "nat list"

definition ascii :: "string \<Rightarrow> glyphs" where
  "ascii s = map of_char s"

datatype font = Truetype string int | Default_font

type_synonym box = "int \<times> int \<times> int \<times> int"

text \<open>
  The draw calls of \<^verbatim>\<open>ImageDraw\<close> the script uses, with their arguments in
  source order; \<open>Paste src pos mask\<close> is \<^verbatim>\<open>Image.paste\<close>. An image is
  \<^verbatim>\<open>Image.new(mode, (w, h), fill)\<close> followed by the calls drawn on it, or the
  result of \<^verbatim>\<open>resize((w, h), LANCZOS)\<close>. Text positions are rationals: the
  piece routines subtract \<^verbatim>\<open>size * 0.05\<close> from the vertical position.
\<close>

datatype draw_op =
    Line "(int \<times> int) list" color int
  | Ellipse box "color option" "color option" int
  | Arc box int int color int
  | Polygon "(int \<times> int) list" color
  | Rectangle box color
  | Rounded_rectangle box int color
  | Text "rat \<times> rat" glyphs font color
  | Paste image "int \<times> int" image
and image =
    Canvas string int int color "draw_op list"
  | Resized image int int

fun width :: "image \<Rightarrow> int" where
  "width (Canvas m w h c ds) = w"
| "width (Resized img w h) = w"

fun height :: "image \<Rightarrow> int" where
  "height (Canvas m w h c ds) = h"
| "height (Resized img w h) = h"

fun draw_ops :: "image \<Rightarrow> draw_op list" where
  "draw_ops (Canvas m w h c ds) = ds"
| "draw_ops (Resized img w h) = []"

subsection \<open>Errors, the environment and the file system\<close>

text \<open>
  The exceptions that can occur: a font file that cannot be opened, a save into a
  directory that does not exist, and any other failure of a save (disk full, no
  permission).
\<close>

datatype error =
    Font_error string
  | File_not_found "string list"
  | Write_error "string list"

text \<open>
  What the script reads from outside: which paths exist (\<^verbatim>\<open>os.path.exists\<close>),
  which font files \<^verbatim>\<open>ImageFont.truetype\<close> can load, the bounding box the
  library computes for a text in a font, which saves the disk refuses, and the random
  generator of the standard library (seeding, and drawing an integer from a range, which
  returns the next generator state).
\<close>

record 'g env =
  path_exists :: "string \<Rightarrow> bool"
  truetype_loads :: "string \<Rightarrow> int \<Rightarrow> bool"
  textbbox :: "font \<Rightarrow> glyphs \<Rightarrow> box"
  disk_fails :: "string list \<Rightarrow> bool"
  rng_seed :: "int \<Rightarrow> 'g"
  rng_randint :: "int \<Rightarrow> int \<Rightarrow> 'g \<Rightarrow> int \<times> 'g"

text \<open>
  A path is the list of its components below \<^verbatim>\<open>ASSETS_DIR\<close>
  (\<^verbatim>\<open>os.path.join\<close> appends components). The state of a run is the set of
  directories that exist below \<^verbatim>\<open>ASSETS_DIR\<close>, the files saved so far in the
  order of the saves (a later save of a path replaces an earlier one), and the state of the
  global random generator.
\<close>

type_synonym path = "string list"

record 'g state =
  dirs :: "path set"
  files :: "(path \<times> image) list"
  rng :: 'g

text \<open>The file-system calls of a routine, in the order it issues them.\<close>

datatype fs_op = Makedirs path | Save path image | Raise error

text \<open>
  \<^verbatim>\<open>os.makedirs(d, exist_ok=True)\<close> creates \<open>d\<close> and every missing ancestor.
  \<^verbatim>\<open>img.save(p)\<close> raises when the directory of \<open>p\<close> does not exist
  (\<^verbatim>\<open>ASSETS_DIR\<close> itself, the empty path, always does) or when the disk refuses
  the write. \<^verbatim>\<open>os.makedirs\<close> itself is taken to succeed. The result of a call is
  the exception it raised, if any, and the state it leaves.
\<close>

definition ancestors :: "path \<Rightarrow> path set" where
  "ancestors d = set (map (\<lambda>n. take n d) [1..<Suc (length d)])"

definition dir_exists :: "path set \<Rightarrow> path \<Rightarrow> bool" where
  "dir_exists D d = (d = [] \<or> d \<in> D)"

fun exec_op :: "'g env \<Rightarrow> fs_op \<Rightarrow> 'g state \<Rightarrow> error option \<times> 'g state" where
  "exec_op E (Makedirs d) s = (None, s\<lparr>dirs := dirs s \<union> ancestors d\<rparr>)"
| "exec_op E (Save p img) s =
     (if \<not> dir_exists (dirs s) (butlast p) then (Some (File_not_found p), s)
      else if disk_fails E p then (Some (Write_error p), s)
      else (None, s\<lparr>files := files s @ [(p, img)]\<rparr>))"
| "exec_op E (Raise e) s = (Some e, s)"

text \<open>
  No routine has a handler around its file-system calls: the first exception ends the
  sequence and is its result.
\<close>

fun exec_ops :: "'g env \<Rightarrow> fs_op list \<Rightarrow> 'g state \<Rightarrow> error option \<times> 'g state" where
  "exec_ops E [] s = (None, s)"
| "exec_ops E (c # cs) s =
     (case exec_op E c s of
        (None, s') \<Rightarrow> exec_ops E cs s'
      | (Some e, s') \<Rightarrow> (Some e, s'))"

text \<open>The paths and images a sequence of calls saves, and the directories it creates.\<close>

fun saved :: "fs_op list \<Rightarrow> (path \<times> image) list" where
  "saved [] = []"
| "saved (Save p img # cs) = (p, img) # saved cs"
| "saved (Makedirs d # cs) = saved cs"
| "saved (Raise e # cs) = saved cs"

fun made :: "fs_op list \<Rightarrow> path set" where
  "made [] = {}"
| "made (Makedirs d # cs) = ancestors d \<union> made cs"
| "made (Save p img # cs) = made cs"
| "made (Raise e # cs) = made cs"

text \<open>
  Whether a sequence of calls runs to its end from a set \<open>D\<close> of existing directories.
\<close>

fun ops_ok :: "'g env \<Rightarrow> path set \<Rightarrow> fs_op list \<Rightarrow> bool" where
  "ops_ok E D [] = True"
| "ops_ok E D (Makedirs d # cs) = ops_ok E (D \<union> ancestors d) cs"
| "ops_ok E D (Save p img # cs) =
     (dir_exists D (butlast p) \<and> \<not> disk_fails E p \<and> ops_ok E D cs)"
| "ops_ok E D (Raise e # cs) = False"

subsection \<open>Formatting and arithmetic helpers\<close>

text \<open>\<^verbatim>\<open>str(n)\<close> of a non-negative integer, as it appears in the f-strings.\<close>

definition digit_char :: "nat \<Rightarrow> char" where
  "digit_char d = ''0123456789'' ! d"

fun str_nat :: "nat \<Rightarrow> string" where
  "str_nat n = (if n < 10 then [digit_char n] else str_nat (n div 10) @ [digit_char (n mod 10)])"

declare str_nat.simps [simp del]

definition str :: "int \<Rightarrow> string" where
  "str i = (if i < 0 then CHR ''-'' # str_nat (nat (- i)) else str_nat (nat i))"

text \<open>
  \<^verbatim>\<open>int(n * x)\<close> for a non-negative integer \<open>n\<close> and a decimal literal
  \<open>x = p / q\<close>: the product truncated. The model multiplies exactly; on the sizes of
  the script's tables the double-precision product truncates to the same integer.
\<close>

definition int_scaled :: "int \<Rightarrow> int \<Rightarrow> int \<Rightarrow> int" where
  "int_scaled n p q = (n * p) div q"

subsection \<open>Fonts\<close>

text \<open>
  \<^verbatim>\<open>ImageFont.truetype(path, size)\<close> raises when the file cannot be loaded;
  \<^verbatim>\<open>ImageFont.load_default()\<close> returns the built-in font.
\<close>

definition truetype :: "'g env \<Rightarrow> string \<Rightarrow> int \<Rightarrow> error + font" where
  "truetype E p sz = (if truetype_loads E p sz then Inr (Truetype p sz) else Inl (Font_error p))"

definition load_default :: "error + font" where
  "load_default = Inr Default_font"

text \<open>\<^verbatim>\<open>try: body  except: handler\<close> with a bare \<^verbatim>\<open>except\<close>.\<close>

definition try_except :: "error + 'a \<Rightarrow> error + 'a \<Rightarrow> error + 'a" where
  "try_except body handler = (case body of Inl e \<Rightarrow> handler | Inr x \<Rightarrow> Inr x)"

definition font_paths :: "string list" where
  "font_paths =
    [''/System/Library/Fonts/STHeiti Light.ttc'',
     ''/System/Library/Fonts/PingFang.ttc'',
     ''/System/Library/Fonts/Hiragino Sans GB.ttc'']"

text \<open>
  The loop over \<^verbatim>\<open>font_paths\<close> of the piece and launch-screen routines: a path that
  does not exist is skipped, a path that fails to load is skipped
  (\<^verbatim>\<open>except: continue\<close>), the first font that loads ends the loop
  (\<^verbatim>\<open>break\<close>). The result is \<open>None\<close> when the loop ends with
  \<^verbatim>\<open>font\<close> still \<^verbatim>\<open>None\<close>.
\<close>

fun first_font :: "'g env \<Rightarrow> int \<Rightarrow> string list \<Rightarrow> font option" where
  "first_font E sz [] = None"
| "first_font E sz (p # ps) =
     (if path_exists E p then
        (case truetype E p sz of
           Inr f \<Rightarrow> Some f
         | Inl e \<Rightarrow> first_font E sz ps)
      else first_font E sz ps)"

text \<open>
  The whole block: the loop, \<^verbatim>\<open>if font is None: font = load_default()\<close>, inside
  an outer \<^verbatim>\<open>try\<close> whose handler loads the default font too.
\<close>

definition resolve_font :: "'g env \<Rightarrow> int \<Rightarrow> error + font" where
  "resolve_font E sz =
     try_except
       (case first_font E sz font_paths of
          Some f \<Rightarrow> Inr f
        | None \<Rightarrow> load_default)
       load_default"

text \<open>
  The nested \<^verbatim>\<open>try\<close> blocks of the application icon and of the launch screen's
  application name: the first path, then the second, then the default font, with no
  existence test.
\<close>

definition resolve_font2 :: "'g env \<Rightarrow> string \<Rightarrow> string \<Rightarrow> int \<Rightarrow> error + font" where
  "resolve_font2 E p1 p2 sz =
     try_except (truetype E p1 sz) (try_except (truetype E p2 sz) load_default)"

text \<open>The text placement every text-drawing routine computes from the bounding box.\<close>

definition text_width :: "box \<Rightarrow> int" where
  "text_width b = (case b of (x0, y0, x1, y1) \<Rightarrow> x1 - x0)"

definition text_height :: "box \<Rightarrow> int" where
  "text_height b = (case b of (x0, y0, x1, y1) \<Rightarrow> y1 - y0)"

definition bbox0 :: "box \<Rightarrow> int" where
  "bbox0 b = (case b of (x0, y0, x1, y1) \<Rightarrow> x0)"

definition bbox1 :: "box \<Rightarrow> int" where
  "bbox1 b = (case b of (x0, y0, x1, y1) \<Rightarrow> y0)"

subsection \<open>\<^verbatim>\<open>save_iconset\<close> and \<^verbatim>\<open>create_app_icon\<close>\<close>

definition iconset_sizes :: "(int \<times> string) list" where
  "iconset_sizes =
    [(16, ''16x16''), (32, ''16x16@2x''), (32, ''32x32''), (64, ''32x32@2x''),
     (128, ''128x128''), (256, ''128x128@2x''), (256, ''256x256''), (512, ''256x256@2x''),
     (512, ''512x512''), (1024, ''512x512@2x'')]"

definition save_iconset :: "image \<Rightarrow> string \<Rightarrow> path \<Rightarrow> fs_op list" where
  "save_iconset img name iconset_dir =
     Makedirs iconset_dir #
     map (\<lambda>(sz, label). Save (iconset_dir @ [name @ ''_'' @ label @ ''.png'']) (Resized img sz sz))
       iconset_sizes"

text \<open>
  The gradient line of row \<open>y\<close>:
  \<^verbatim>\<open>progress = y / size; r = int(44 + (60 - 44) * progress)\<close> and so on.
\<close>

definition gradient_line :: "int \<Rightarrow> int \<Rightarrow> draw_op" where
  "gradient_line sz y =
     (let progress = (of_int y :: rat) / of_int sz;
          r = \<lfloor>44 + (60 - 44) * progress\<rfloor>;
          g = \<lfloor>44 + (60 - 44) * progress\<rfloor>;
          b = \<lfloor>46 + (64 - 46) * progress\<rfloor>
      in Line [(0, y), (sz, y)] (RGB r g b) 0)"

definition app_icon_mask :: image where
  "app_icon_mask = Canvas ''L'' 1024 1024 (Gray 0) [Rounded_rectangle (0, 0, 1024, 1024) 200 (Gray 255)]"

text \<open>
  The icon before the mask is applied. The copy of the canvas into \<^verbatim>\<open>bg\<close> pixel by
  pixel is left out: \<^verbatim>\<open>bg\<close> is never read, saved or returned.
\<close>

definition app_icon_canvas :: "'g env \<Rightarrow> font \<Rightarrow> image" where
  "app_icon_canvas E fnt =
     (let sz = 1024;
          cx = sz div 2; cy = sz div 2;
          piece_radius = 280;
          inner_radius = 240;
          txt = [0x5E05];
          bbox = textbbox E fnt txt;
          text_x = cx - text_width bbox div 2 - bbox0 bbox;
          text_y = cy - text_height bbox div 2 - bbox1 bbox - 10
      in Canvas ''RGBA'' sz sz (RGBA 0 0 0 0)
           (map (gradient_line sz) [0..sz - 1] @
            [Ellipse (cx - piece_radius, cy - piece_radius, cx + piece_radius, cy + piece_radius)
               (Some (Hex ''#CC0000'')) (Some (Hex ''#990000'')) 8,
             Ellipse (cx - inner_radius, cy - inner_radius, cx + inner_radius, cy + inner_radius)
               (Some (Hex ''#F5F0E6'')) None 1,
             Text (of_int text_x, of_int text_y) txt fnt (Hex ''#CC0000'')]))"

definition app_icon_final :: "'g env \<Rightarrow> font \<Rightarrow> image" where
  "app_icon_final E fnt =
     Canvas ''RGBA'' 1024 1024 (RGBA 0 0 0 0) [Paste (app_icon_canvas E fnt) (0, 0) app_icon_mask]"

definition create_app_icon :: "'g env \<Rightarrow> fs_op list" where
  "create_app_icon E =
     (case resolve_font2 E ''/System/Library/Fonts/STHeiti Light.ttc''
             ''/System/Library/Fonts/PingFang.ttc'' 240 of
        Inl e \<Rightarrow> [Raise e]
      | Inr fnt \<Rightarrow>
          (let final_img = app_icon_final E fnt;
               iconset_dir = [''Icons'', ''AppIcon.iconset'']
           in save_iconset final_img ''AppIcon'' iconset_dir @
              [Save [''Icons'', ''AppIcon_1024.png''] final_img]))"

subsection \<open>\<^verbatim>\<open>create_board_styles\<close>\<close>

text \<open>
  One pass of the wood-grain loop draws four integers from the generator and one line;
  each channel of the base colour is shifted by \<^verbatim>\<open>color_var\<close> and clamped with
  \<^verbatim>\<open>max(0, min(255, c + color_var))\<close>.
\<close>

definition wood_color :: "int \<Rightarrow> color" where
  "wood_color color_var =
     RGB (max 0 (min 255 (232 + color_var)))
         (max 0 (min 255 (212 + color_var)))
         (max 0 (min 255 (162 + color_var)))"

fun wood_grain :: "'g env \<Rightarrow> int \<Rightarrow> nat \<Rightarrow> 'g \<Rightarrow> draw_op list \<times> 'g" where
  "wood_grain E sz 0 g = ([], g)"
| "wood_grain E sz (Suc n) g =
     (case rng_randint E 0 (sz - 1) g of (x, g1) \<Rightarrow>
      case rng_randint E 0 (sz - 1) g1 of (y, g2) \<Rightarrow>
      case rng_randint E 20 100 g2 of (len, g3) \<Rightarrow>
      case rng_randint E (- 20) 20 g3 of (color_var, g4) \<Rightarrow>
      case wood_grain E sz n g4 of (ds, g') \<Rightarrow>
        (Line [(x, y), (x, y + len)] (wood_color color_var) 1 # ds, g'))"

text \<open>
  The grid every board style draws: ten horizontal lines, nine vertical lines broken at
  the river, and the diagonals of the two palaces, in one colour and one line width.
\<close>

definition board_grid :: "int \<Rightarrow> color \<Rightarrow> int \<Rightarrow> draw_op list" where
  "board_grid sz line_color w =
     (let margin = 80;
          grid_size = sz - 2 * margin;
          palace_margin_x = margin + (3 * grid_size) div 8;
          palace_width = (2 * grid_size) div 8;
          palace_top = margin;
          palace_bottom = margin + (4 * grid_size) div 9;
          palace_mid_top = margin + (5 * grid_size) div 9;
          palace_mid_bottom = sz - margin
      in map (\<lambda>i. Line [(margin, margin + (i * grid_size) div 9),
                         (sz - margin, margin + (i * grid_size) div 9)] line_color w) [0..9] @
         concat (map (\<lambda>i.
           [Line [(margin + (i * grid_size) div 8, margin),
                  (margin + (i * grid_size) div 8, margin + (4 * grid_size) div 9)] line_color w,
            Line [(margin + (i * grid_size) div 8, margin + (5 * grid_size) div 9),
                  (margin + (i * grid_size) div 8, sz - margin)] line_color w]) [0..8]) @
         [Line [(palace_margin_x, palace_top), (palace_margin_x + palace_width, palace_bottom)] line_color w,
          Line [(palace_margin_x + palace_width, palace_top), (palace_margin_x, palace_bottom)] line_color w,
          Line [(palace_margin_x, palace_mid_bottom), (palace_margin_x + palace_width, palace_mid_top)] line_color w,
          Line [(palace_margin_x + palace_width, palace_mid_bottom), (palace_margin_x, palace_mid_top)] line_color w])"

text \<open>
  The wood board: \<^verbatim>\<open>random.seed(42)\<close> replaces the state of the global generator,
  the loop of 5000 passes advances it, then the grid is drawn. The result is the image and
  the state the routine goes on with.
\<close>

definition wood_texture :: "'g env \<Rightarrow> 'g state \<Rightarrow> image \<times> 'g state" where
  "wood_texture E s =
     (let sz = 1024;
          s1 = s\<lparr>rng := rng_seed E 42\<rparr>
      in case wood_grain E sz 5000 (rng s1) of (grain, g') \<Rightarrow>
           (Canvas ''RGB'' sz sz (Hex ''#E8D4A2'') (grain @ board_grid sz (Hex ''#5C4033'') 2),
            s1\<lparr>rng := g'\<rparr>))"

definition board_modern_light :: image where
  "board_modern_light = Canvas ''RGB'' 1024 1024 (Hex ''#F5F5F7'') (board_grid 1024 (Hex ''#8E8E93'') 1)"

definition board_modern_dark :: image where
  "board_modern_dark = Canvas ''RGB'' 1024 1024 (Hex ''#1C1C1E'') (board_grid 1024 (Hex ''#636366'') 1)"

text \<open>
  The routine issues no \<^verbatim>\<open>os.makedirs\<close>: its three saves go to
  \<^verbatim>\<open>BoardStyles\<close> as it is found.
\<close>

definition board_ops :: "image \<Rightarrow> fs_op list" where
  "board_ops wood_img =
     [Save [''BoardStyles'', ''Board_Wood.png''] wood_img,
      Save [''BoardStyles'', ''Board_Modern_Light.png''] board_modern_light,
      Save [''BoardStyles'', ''Board_Modern_Dark.png''] board_modern_dark]"

definition create_board_styles :: "'g env \<Rightarrow> 'g state \<Rightarrow> error option \<times> 'g state" where
  "create_board_styles E s =
     (case wood_texture E s of (wood_img, s') \<Rightarrow> exec_ops E (board_ops wood_img) s')"

subsection \<open>\<^verbatim>\<open>create_pieces\<close>\<close>

definition red_pieces :: "glyphs list" where
  "red_pieces = [[0x5E05], [0x4ED5], [0x76F8], [0x508C], [0x4FE5], [0x70AE], [0x5175]]"

definition black_pieces :: "glyphs list" where
  "black_pieces = [[0x5C06], [0x58EB], [0x8C61], [0x9A6C], [0x8F66], [0x7832], [0x5352]]"

definition create_traditional_piece :: "'g env \<Rightarrow> int \<Rightarrow> glyphs \<Rightarrow> string \<Rightarrow> error + image" where
  "create_traditional_piece E sz ch col =
     (let center = sz div 2;
          radius = int_scaled sz 45 100;
          border_color = (if col = ''red'' then Hex ''#CC0000'' else Hex ''#1A1A1A'');
          bg_color = (if col = ''red'' then Hex ''#F5F0E6'' else Hex ''#F5F0E6'');
          text_color = (if col = ''red'' then Hex ''#CC0000'' else Hex ''#1A1A1A'')
      in case resolve_font E (int_scaled sz 55 100) of
           Inl e \<Rightarrow> Inl e
         | Inr fnt \<Rightarrow>
             (let bbox = textbbox E fnt ch;
                  text_x = center - text_width bbox div 2 - bbox0 bbox;
                  text_y = of_int (center - text_height bbox div 2 - bbox1 bbox) - of_int sz * (5 / 100)
              in Inr (Canvas ''RGBA'' sz sz (RGBA 0 0 0 0)
                   [Ellipse (center - radius - 2, center - radius - 2,
                             center + radius + 2, center + radius + 2) (Some border_color) None 1,
                    Ellipse (center - radius, center - radius, center + radius, center + radius)
                      (Some bg_color) None 1,
                    Text (of_int text_x, text_y) ch fnt text_color])))"

definition create_modern_piece :: "'g env \<Rightarrow> int \<Rightarrow> glyphs \<Rightarrow> string \<Rightarrow> error + image" where
  "create_modern_piece E sz ch col =
     (let center = sz div 2;
          radius = int_scaled sz 42 100;
          bg_color = (if col = ''red'' then Hex ''#FF3B30'' else Hex ''#1C1C1E'');
          text_color = (if col = ''red'' then Hex ''#FFFFFF'' else Hex ''#FFFFFF'');
          shadow_color = (if col = ''red'' then Hex ''#CC2E24'' else Hex ''#000000'');
          shadow_offset = int_scaled sz 3 100
      in case resolve_font E (int_scaled sz 5 10) of
           Inl e \<Rightarrow> Inl e
         | Inr fnt \<Rightarrow>
             (let bbox = textbbox E fnt ch;
                  text_x = center - text_width bbox div 2 - bbox0 bbox;
                  text_y = of_int (center - text_height bbox div 2 - bbox1 bbox) - of_int sz * (5 / 100)
              in Inr (Canvas ''RGBA'' sz sz (RGBA 0 0 0 0)
                   [Ellipse (center - radius + shadow_offset, center - radius + shadow_offset,
                             center + radius + shadow_offset, center + radius + shadow_offset)
                      (Some shadow_color) None 1,
                    Ellipse (center - radius, center - radius, center + radius, center + radius)
                      (Some bg_color) None 1,
                    Text (of_int text_x, text_y) ch fnt text_color])))"

text \<open>
  \<^verbatim>\<open>img = create(...); img.save(p)\<close>: an exception of the creation comes before
  the save.
\<close>

definition save_result :: "path \<Rightarrow> error + image \<Rightarrow> fs_op" where
  "save_result p r = (case r of Inl e \<Rightarrow> Raise e | Inr img \<Rightarrow> Save p img)"

definition piece_sizes :: "int list" where
  "piece_sizes = [64, 128, 256]"

definition style_ops ::
  "path \<Rightarrow> (int \<Rightarrow> glyphs \<Rightarrow> string \<Rightarrow> error + image) \<Rightarrow> int \<Rightarrow> fs_op list" where
  "style_ops style_dir create sz =
     Makedirs style_dir #
     concat (map (\<lambda>(i, (red_char, black_char)).
       [save_result (style_dir @ [''Red_'' @ str (int i) @ ''.png'']) (create sz red_char ''red''),
        save_result (style_dir @ [''Black_'' @ str (int i) @ ''.png'']) (create sz black_char ''black'')])
       (enumerate 0 (zip red_pieces black_pieces)))"

definition create_pieces :: "'g env \<Rightarrow> fs_op list" where
  "create_pieces E =
     concat (map (\<lambda>sz.
       style_ops [''PieceStyles'', ''Traditional'', str sz] (create_traditional_piece E) sz @
       style_ops [''PieceStyles'', ''Modern'', str sz] (create_modern_piece E) sz)
       piece_sizes)"

subsection \<open>\<^verbatim>\<open>create_toolbar_icons\<close>\<close>

text \<open>The dictionary \<^verbatim>\<open>icons\<close> in insertion order, which is the order of its loop.\<close>

definition toolbar_icons :: "(string \<times> string \<times> color) list" where
  "toolbar_icons =
    [(''NewGame'', ''new'', Hex ''#007AFF''),
     (''Undo'', ''undo'', Hex ''#5856D6''),
     (''Hint'', ''hint'', Hex ''#FF9500''),
     (''Settings'', ''settings'', Hex ''#8E8E93''),
     (''Analysis'', ''analysis'', Hex ''#34C759'')]"

definition toolbar_sizes :: "int list" where
  "toolbar_sizes = [18, 24, 36]"

definition toolbar_draw :: "string \<Rightarrow> color \<Rightarrow> int \<Rightarrow> draw_op list" where
  "toolbar_draw icon_type c sz =
     (let center = sz div 2;
          stroke = max 1 (sz div 12)
      in if icon_type = ''new'' then
           [Line [(center, stroke), (center, sz - stroke)] c stroke,
            Line [(stroke, center), (sz - stroke, center)] c stroke]
         else if icon_type = ''undo'' then
           (let arc_radius = sz div 3;
                arrow_x = center - arc_radius;
                arrow_y = center
            in [Arc (center - arc_radius, center - arc_radius, center + arc_radius, center + arc_radius)
                  200 340 c stroke,
                Polygon [(arrow_x, arrow_y), (arrow_x + stroke * 2, arrow_y - stroke),
                         (arrow_x + stroke * 2, arrow_y + stroke)] c])
         else if icon_type = ''hint'' then
           (let bulb_radius = sz div 3
            in [Ellipse (center - bulb_radius, center - bulb_radius - stroke,
                         center + bulb_radius, center + bulb_radius - stroke) (Some c) (Some c) 1,
                Rectangle (center - stroke, center + stroke,
                           center + stroke, center + bulb_radius + stroke * 2) c])
         else if icon_type = ''settings'' then
           (let gear_radius = sz div 3
            in [Ellipse (center - gear_radius, center - gear_radius,
                         center + gear_radius, center + gear_radius) None (Some c) stroke,
                Ellipse (center - stroke, center - stroke, center + stroke, center + stroke)
                  (Some c) None 1])
         else if icon_type = ''analysis'' then
           [Line [(stroke * 2, sz - stroke * 2), (stroke * 2, stroke * 2)] c stroke,
            Line [(stroke * 2, sz - stroke * 2), (sz - stroke * 2, sz - stroke * 2)] c stroke,
            Line [(stroke * 4, sz - stroke * 4), (sz div 3, sz div 2),
                  (sz div 2, sz div 3), (sz - stroke * 4, stroke * 4)] c stroke]
         else [])"

text \<open>
  The file name of an icon drawn at \<open>sz\<close> pixels: the suffix is empty when
  \<^verbatim>\<open>size <= 24\<close> and \<^verbatim>\<open>@2x\<close> otherwise, and the size in the name is
  \<^verbatim>\<open>size\<close> when \<^verbatim>\<open>size <= 24\<close> and \<^verbatim>\<open>size // 2\<close> otherwise.
\<close>

definition toolbar_filename :: "string \<Rightarrow> int \<Rightarrow> string" where
  "toolbar_filename icon_name sz =
     (let scale_suffix = (if sz \<le> 24 then [] else ''@2x'');
          save_size = (if sz \<le> 24 then sz else sz div 2)
      in icon_name @ ''_'' @ str save_size @ ''x'' @ str save_size @ scale_suffix @ ''.png'')"

definition create_toolbar_icons :: "fs_op list" where
  "create_toolbar_icons =
     Makedirs [''Toolbar''] #
     concat (map (\<lambda>(icon_name, icon_type, c).
       map (\<lambda>sz. Save [''Toolbar'', toolbar_filename icon_name sz]
                    (Canvas ''RGBA'' sz sz (RGBA 0 0 0 0) (toolbar_draw icon_type c sz)))
         toolbar_sizes)
       toolbar_icons)"

subsection \<open>\<^verbatim>\<open>create_ui_elements\<close>\<close>

text \<open>\<^verbatim>\<open>range(n, 0, -1)\<close> counts down from \<open>n\<close> to \<open>1\<close>.\<close>

definition countdown :: "int \<Rightarrow> int list" where
  "countdown n = rev [1..n]"

definition selection_highlight :: image where
  "selection_highlight =
     (let sz = 256; center = sz div 2; radius = sz div 2 - 10
      in Canvas ''RGBA'' sz sz (RGBA 0 0 0 0)
           (map (\<lambda>i. Ellipse (center - radius - i, center - radius - i,
                              center + radius + i, center + radius + i)
                        None (Some (RGBA 0 122 255 (50 - i * 4))) 2)
              (countdown 10)))"

definition move_indicator :: image where
  "move_indicator =
     (let sz = 256; center = sz div 2; dot_radius = sz div 6
      in Canvas ''RGBA'' sz sz (RGBA 0 0 0 0)
           [Ellipse (center - dot_radius, center - dot_radius,
                     center + dot_radius, center + dot_radius)
              (Some (RGBA 52 199 89 180)) None 1])"

definition check_warning :: image where
  "check_warning =
     (let sz = 256; center = sz div 2; radius = sz div 2 - 10
      in Canvas ''RGBA'' sz sz (RGBA 0 0 0 0)
           (map (\<lambda>i. Ellipse (center - radius - i * 3, center - radius - i * 3,
                              center + radius + i * 3, center + radius + i * 3)
                        None (Some (RGBA 255 59 48 (100 - i * 15))) 3)
              (countdown 5)))"

definition last_move_indicator :: image where
  "last_move_indicator =
     (let sz = 256; center = sz div 2; radius = sz div 2 - 5
      in Canvas ''RGBA'' sz sz (RGBA 0 0 0 0)
           [Ellipse (center - radius, center - radius, center + radius, center + radius)
              None (Some (RGBA 255 149 0 150)) 3])"

definition create_ui_elements :: "fs_op list" where
  "create_ui_elements =
     [Makedirs [''UI''],
      Save [''UI'', ''Selection_Highlight.png''] selection_highlight,
      Save [''UI'', ''Move_Indicator.png''] move_indicator,
      Save [''UI'', ''Check_Warning.png''] check_warning,
      Save [''UI'', ''Last_Move_Indicator.png''] last_move_indicator]"

subsection \<open>\<^verbatim>\<open>create_launch_screen\<close>\<close>

definition launch_sizes :: "(int \<times> int \<times> string) list" where
  "launch_sizes =
    [(800, 600, ''LaunchScreen_800x600''),
     (1024, 768, ''LaunchScreen_1024x768''),
     (1200, 800, ''LaunchScreen_1200x800''),
     (1600, 1000, ''LaunchScreen_1600x1000'')]"

definition launch_image :: "'g env \<Rightarrow> int \<Rightarrow> int \<Rightarrow> error + image" where
  "launch_image E w h =
     (let center_x = w div 2;
          center_y = h div 2;
          piece_radius = min w h div 8;
          inner_radius = int_scaled piece_radius 85 100
      in case resolve_font E (int_scaled piece_radius 12 10) of
           Inl e \<Rightarrow> Inl e
         | Inr fnt \<Rightarrow>
            (case resolve_font2 E ''/System/Library/Fonts/SFProDisplay-Semibold.otf''
                    ''/System/Library/Fonts/Helvetica.ttc'' 36 of
               Inl e \<Rightarrow> Inl e
             | Inr name_font \<Rightarrow>
                (let txt = [0x68CB];
                     bbox = textbbox E fnt txt;
                     text_x = center_x - text_width bbox div 2 - bbox0 bbox;
                     text_y = center_y - text_height bbox div 2 - bbox1 bbox - 40;
                     app_name = ascii ''Chinese Chess'';
                     nbox = textbbox E name_font app_name;
                     name_x = center_x - text_width nbox div 2;
                     name_y = center_y + piece_radius + 20
                 in Inr (Canvas ''RGB'' w h (Hex ''#F5F5F7'')
                      [Ellipse (center_x - piece_radius, center_y - piece_radius - 40,
                                center_x + piece_radius, center_y + piece_radius - 40)
                         (Some (Hex ''#CC0000'')) (Some (Hex ''#990000'')) 4,
                       Ellipse (center_x - inner_radius, center_y - inner_radius - 40,
                                center_x + inner_radius, center_y + inner_radius - 40)
                         (Some (Hex ''#F5F0E6'')) None 1,
                       Text (of_int text_x, of_int text_y) txt fnt (Hex ''#CC0000''),
                       Text (of_int name_x, of_int name_y) app_name name_font (Hex ''#1C1C1E'')]))))"

definition create_launch_screen :: "'g env \<Rightarrow> fs_op list" where
  "create_launch_screen E =
     Makedirs [''LaunchScreen''] #
     map (\<lambda>(w, h, name). save_result [''LaunchScreen'', name @ ''.png''] (launch_image E w h))
       launch_sizes"

subsection \<open>\<^verbatim>\<open>main\<close>\<close>

datatype routine = App_icon | Board_styles | Pieces | Toolbar_icons | Ui_elements | Launch_screen

fun run_routine :: "'g env \<Rightarrow> routine \<Rightarrow> 'g state \<Rightarrow> error option \<times> 'g state" where
  "run_routine E App_icon s = exec_ops E (create_app_icon E) s"
| "run_routine E Board_styles s = create_board_styles E s"
| "run_routine E Pieces s = exec_ops E (create_pieces E) s"
| "run_routine E Toolbar_icons s = exec_ops E create_toolbar_icons s"
| "run_routine E Ui_elements s = exec_ops E create_ui_elements s"
| "run_routine E Launch_screen s = exec_ops E (create_launch_screen E) s"

text \<open>Routines called one after the other; an exception of one ends the run.\<close>

fun run_routines :: "'g env \<Rightarrow> routine list \<Rightarrow> 'g state \<Rightarrow> error option \<times> 'g state" where
  "run_routines E [] s = (None, s)"
| "run_routines E (r # rs) s =
     (case run_routine E r s of
        (None, s') \<Rightarrow> run_routines E rs s'
      | (Some e, s') \<Rightarrow> (Some e, s'))"

definition main_order :: "routine list" where
  "main_order = [App_icon, Board_styles, Pieces, Toolbar_icons, Ui_elements, Launch_screen]"

definition main :: "'g env \<Rightarrow> 'g state \<Rightarrow> error option \<times> 'g state" where
  "main E s = run_routines E main_order s"

subsection \<open>Notions used in the statements\<close>

text \<open>
  The file-system calls a top-level routine issues when it starts in state \<open>s\<close>, and
  the state in which it issues them (the board routine has seeded and advanced the
  generator by then).
\<close>

fun routine_ops :: "'g env \<Rightarrow> 'g state \<Rightarrow> routine \<Rightarrow> fs_op list" where
  "routine_ops E s App_icon = create_app_icon E"
| "routine_ops E s Board_styles = board_ops (fst (wood_texture E s))"
| "routine_ops E s Pieces = create_pieces E"
| "routine_ops E s Toolbar_icons = create_toolbar_icons"
| "routine_ops E s Ui_elements = create_ui_elements"
| "routine_ops E s Launch_screen = create_launch_screen E"

text \<open>
  Every save of a sequence goes to a directory that exists by then, and nothing is raised
  between the calls: the sequence runs to its end on a disk that accepts every write.
\<close>

fun well_placed :: "path set \<Rightarrow> fs_op list \<Rightarrow> bool" where
  "well_placed D [] = True"
| "well_placed D (Makedirs d # cs) = well_placed (D \<union> ancestors d) cs"
| "well_placed D (Save p img # cs) = (dir_exists D (butlast p) \<and> well_placed D cs)"
| "well_placed D (Raise e # cs) = False"

definition disk_accepts :: "'g env \<Rightarrow> fs_op list \<Rightarrow> bool" where
  "disk_accepts E cs = list_all (\<lambda>p. \<not> disk_fails E p) (map fst (saved cs))"

text \<open>The saves of a sequence that happen before its first exception.\<close>

fun written :: "'g env \<Rightarrow> path set \<Rightarrow> fs_op list \<Rightarrow> (path \<times> image) list" where
  "written E D [] = []"
| "written E D (Makedirs d # cs) = written E (D \<union> ancestors d) cs"
| "written E D (Save p img # cs) =
     (if dir_exists D (butlast p) \<and> \<not> disk_fails E p then (p, img) # written E D cs else [])"
| "written E D (Raise e # cs) = []"

text \<open>The path and the pixel dimensions of every file a sequence saves.\<close>

definition file_dims :: "fs_op list \<Rightarrow> (path \<times> int \<times> int) list" where
  "file_dims cs = map (\<lambda>(p, img). (p, width img, height img)) (saved cs)"

text \<open>The content of the file at path \<open>p\<close> in a state: the image of the last save.\<close>

definition file_content :: "'g state \<Rightarrow> path \<Rightarrow> image option" where
  "file_content s p = map_of (rev (files s)) p"

text \<open>
  What a routine produces when it is called in state \<open>s\<close>: the files it adds. The state
  in which a routine is called in a run of the routines \<open>rs\<close> is the state the routines
  before it leave.
\<close>

definition routine_output :: "'g env \<Rightarrow> routine \<Rightarrow> 'g state \<Rightarrow> (path \<times> image) list" where
  "routine_output E r s = drop (length (files s)) (files (snd (run_routine E r s)))"

definition state_before :: "'g env \<Rightarrow> routine list \<Rightarrow> routine \<Rightarrow> 'g state \<Rightarrow> 'g state" where
  "state_before E rs r s = snd (run_routines E (takeWhile (\<lambda>x. x \<noteq> r) rs) s)"

text \<open>The colours of a draw call, and whether every channel of a colour is a byte.\<close>

fun op_colors :: "draw_op \<Rightarrow> color list" where
  "op_colors (Line ps c w) = [c]"
| "op_colors (Ellipse b f ol w) = (case f of None \<Rightarrow> [] | Some c \<Rightarrow> [c]) @ (case ol of None \<Rightarrow> [] | Some c \<Rightarrow> [c])"
| "op_colors (Arc b st en c w) = [c]"
| "op_colors (Polygon ps c) = [c]"
| "op_colors (Rectangle b c) = [c]"
| "op_colors (Rounded_rectangle b r c) = [c]"
| "op_colors (Text pos t f c) = [c]"
| "op_colors (Paste src pos msk) = []"

definition byte :: "int \<Rightarrow> bool" where
  "byte v = (0 \<le> v \<and> v \<le> 255)"

fun color_ok :: "color \<Rightarrow> bool" where
  "color_ok (Hex h) = True"
| "color_ok (RGB r g b) = (byte r \<and> byte g \<and> byte b)"
| "color_ok (RGBA r g b a) = (byte r \<and> byte g \<and> byte b \<and> byte a)"
| "color_ok (Gray v) = byte v"

definition colors_of :: "image \<Rightarrow> color list" where
  "colors_of img = concat (map op_colors (draw_ops img))"

text \<open>The alpha channel of the outline of an ellipse call.\<close>

fun outline_alpha :: "draw_op \<Rightarrow> int option" where
  "outline_alpha (Ellipse b f (Some (RGBA r g bl a)) w) = Some a"
| "outline_alpha d = None"

text \<open>
  The fonts an image was drawn with: the font of every text call issued on it, in the
  order of the calls, through pasted and resized images.
\<close>

fun fonts_of_op :: "draw_op \<Rightarrow> font list"
  and fonts_of :: "image \<Rightarrow> font list" where
  "fonts_of_op (Line ps c w) = []"
| "fonts_of_op (Ellipse b f ol w) = []"
| "fonts_of_op (Arc b st en c w) = []"
| "fonts_of_op (Polygon ps c) = []"
| "fonts_of_op (Rectangle b c) = []"
| "fonts_of_op (Rounded_rectangle b r c) = []"
| "fonts_of_op (Text pos t f c) = [f]"
| "fonts_of_op (Paste src pos msk) = fonts_of src @ fonts_of msk"
| "fonts_of (Canvas m w h c ds) = concat (map fonts_of_op ds)"
| "fonts_of (Resized img w h) = fonts_of img"

text \<open>
  An environment and a state to run the routines in: no system font is installed, the disk
  accepts every write, the generator is a small linear congruential one, and only
  \<^verbatim>\<open>BoardStyles\<close> exists below \<^verbatim>\<open>ASSETS_DIR\<close>.
\<close>

definition example_env :: "nat env" where
  "example_env =
     \<lparr>path_exists = (\<lambda>p. False),
      truetype_loads = (\<lambda>p sz. False),
      textbbox = (\<lambda>f t. (0, 0, 10 * int (length t), 12)),
      disk_fails = (\<lambda>p. False),
      rng_seed = (\<lambda>n. nat n),
      rng_randint = (\<lambda>a b g. (a + int g mod (b - a + 1), (75 * g + 74) mod 65537))\<rparr>"

definition example_state :: "nat state" where
  "example_state = \<lparr>dirs = {[''BoardStyles'']}, files = [], rng = 0\<rparr>"

section \<open>Properties\<close>

subsection \<open>Running a sequence of file-system calls\<close>

lemma str_digits:
  "str 0 = ''0''" "str 1 = ''1''" "str 2 = ''2''" "str 3 = ''3''" "str 4 = ''4''"
  "str 5 = ''5''" "str 6 = ''6''"
  by (simp_all add: str_def str_nat.simps digit_char_def)

lemma str_sizes:
  "str 64 = ''64''" "str 128 = ''128''" "str 256 = ''256''" "str 18 = ''18''" "str 24 = ''24''"
  by (simp_all add: str_def str_nat.simps digit_char_def)

lemma ancestors_simps:
  "ancestors [a] = {[a]}" "ancestors [a, b] = {[a], [a, b]}"
  "ancestors [a, b, c] = {[a], [a, b], [a, b, c]}"
  by (auto simp: ancestors_def upt_rec)

lemma exec_ops_ok:
  "ops_ok E (dirs s) cs \<Longrightarrow>
   exec_ops E cs s = (None, s\<lparr>dirs := dirs s \<union> made cs, files := files s @ saved cs\<rparr>)"
proof (induction cs arbitrary: s)
  case Nil
  then show ?case by simp
next
  case (Cons c cs)
  then show ?case by (cases c) (simp_all add: Un_assoc)
qed

lemma exec_ops_fail:
  "\<not> ops_ok E (dirs s) cs \<Longrightarrow> fst (exec_ops E cs s) \<noteq> None"
proof (induction cs arbitrary: s)
  case Nil
  then show ?case by simp
next
  case (Cons c cs)
  then show ?case by (cases c) (auto split: if_splits)
qed

lemma exec_ops_None_iff: "fst (exec_ops E cs s) = None \<longleftrightarrow> ops_ok E (dirs s) cs"
  using exec_ops_ok [of E s cs] exec_ops_fail [of E s cs] by (metis fst_conv)

lemma ops_ok_iff: "ops_ok E D cs = (well_placed D cs \<and> disk_accepts E cs)"
proof (induction cs arbitrary: D)
  case Nil
  then show ?case by (simp add: disk_accepts_def)
next
  case (Cons c cs)
  then show ?case by (cases c) (auto simp: disk_accepts_def)
qed

lemma exec_ops_files: "files (snd (exec_ops E cs s)) = files s @ written E (dirs s) cs"
proof (induction cs arbitrary: s)
  case Nil
  then show ?case by simp
next
  case (Cons c cs)
  then show ?case by (cases c) simp_all
qed

lemma exec_ops_rng: "rng (snd (exec_ops E cs s)) = rng s"
proof (induction cs arbitrary: s)
  case Nil
  then show ?case by simp
next
  case (Cons c cs)
  then show ?case by (cases c) simp_all
qed

lemma exec_ops_dirs_lower: "dirs s \<subseteq> dirs (snd (exec_ops E cs s))"
proof (induction cs arbitrary: s)
  case Nil
  then show ?case by simp
next
  case (Cons c cs)
  show ?case
  proof (cases c)
    case (Makedirs d)
    with Cons.IH [of "s\<lparr>dirs := dirs s \<union> ancestors d\<rparr>"] show ?thesis by auto
  next
    case (Save p img)
    with Cons.IH [of "s\<lparr>files := files s @ [(p, img)]\<rparr>"] show ?thesis by auto
  next
    case (Raise e)
    then show ?thesis by simp
  qed
qed

lemma exec_ops_dirs_upper: "dirs (snd (exec_ops E cs s)) \<subseteq> dirs s \<union> made cs"
proof (induction cs arbitrary: s)
  case Nil
  then show ?case by simp
next
  case (Cons c cs)
  show ?case
  proof (cases c)
    case (Makedirs d)
    with Cons.IH [of "s\<lparr>dirs := dirs s \<union> ancestors d\<rparr>"] show ?thesis by auto
  next
    case (Save p img)
    with Cons.IH [of "s\<lparr>files := files s @ [(p, img)]\<rparr>"] show ?thesis by auto
  next
    case (Raise e)
    then show ?thesis by simp
  qed
qed

lemma written_well_placed:
  "well_placed D1 cs \<Longrightarrow> well_placed D2 cs \<Longrightarrow> written E D1 cs = written E D2 cs"
proof (induction cs arbitrary: D1 D2)
  case Nil
  then show ?case by simp
next
  case (Cons c cs)
  show ?case
  proof (cases c)
    case (Makedirs d)
    with Cons.prems have "well_placed (D1 \<union> ancestors d) cs" "well_placed (D2 \<union> ancestors d) cs"
      by simp_all
    then have "written E (D1 \<union> ancestors d) cs = written E (D2 \<union> ancestors d) cs"
      by (rule Cons.IH)
    with Makedirs show ?thesis by simp
  next
    case (Save p img)
    with Cons.prems have ex: "dir_exists D1 (butlast p)" "dir_exists D2 (butlast p)"
      and wp: "well_placed D1 cs" "well_placed D2 cs"
      by simp_all
    from wp have "written E D1 cs = written E D2 cs" by (rule Cons.IH)
    with Save ex show ?thesis by simp
  next
    case (Raise e)
    then show ?thesis by simp
  qed
qed

subsection \<open>Font resolution\<close>

lemma resolve_font_total:
  "resolve_font E sz = Inr (case first_font E sz font_paths of Some f \<Rightarrow> f | None \<Rightarrow> Default_font)"
  by (simp add: resolve_font_def try_except_def load_default_def split: option.splits)

lemma resolve_font2_total:
  "resolve_font2 E p1 p2 sz =
     Inr (if truetype_loads E p1 sz then Truetype p1 sz
          else if truetype_loads E p2 sz then Truetype p2 sz else Default_font)"
  by (simp add: resolve_font2_def try_except_def load_default_def truetype_def)

lemma traditional_Inr:
  "\<exists>ds. create_traditional_piece E sz ch col = Inr (Canvas ''RGBA'' sz sz (RGBA 0 0 0 0) ds)"
  by (simp add: create_traditional_piece_def resolve_font_total Let_def)

lemma modern_Inr:
  "\<exists>ds. create_modern_piece E sz ch col = Inr (Canvas ''RGBA'' sz sz (RGBA 0 0 0 0) ds)"
  by (simp add: create_modern_piece_def resolve_font_total Let_def)

lemma launch_Inr:
  "\<exists>ds. launch_image E w h = Inr (Canvas ''RGB'' w h (Hex ''#F5F5F7'') ds)"
  by (simp add: launch_image_def resolve_font_total resolve_font2_total Let_def)

lemma save_result_traditional:
  "save_result p (create_traditional_piece E sz ch col) =
     Save p (projr (create_traditional_piece E sz ch col))"
  using traditional_Inr [of E sz ch col] by (auto simp: save_result_def)

lemma save_result_modern:
  "save_result p (create_modern_piece E sz ch col) =
     Save p (projr (create_modern_piece E sz ch col))"
  using modern_Inr [of E sz ch col] by (auto simp: save_result_def)

lemma save_result_launch:
  "save_result p (launch_image E w h) = Save p (projr (launch_image E w h))"
  using launch_Inr [of E w h] by (auto simp: save_result_def)

lemma dims_traditional:
  "width (projr (create_traditional_piece E sz ch col)) = sz"
  "height (projr (create_traditional_piece E sz ch col)) = sz"
  using traditional_Inr [of E sz ch col] by auto

lemma dims_modern:
  "width (projr (create_modern_piece E sz ch col)) = sz"
  "height (projr (create_modern_piece E sz ch col)) = sz"
  using modern_Inr [of E sz ch col] by auto

lemma dims_launch:
  "width (projr (launch_image E w h)) = w"
  "height (projr (launch_image E w h)) = h"
  using launch_Inr [of E w h] by auto

subsection \<open>The calls of each routine\<close>

lemmas pieces_unfold = create_pieces_def style_ops_def piece_sizes_def red_pieces_def
  black_pieces_def save_result_traditional save_result_modern str_digits str_sizes

lemmas toolbar_unfold = create_toolbar_icons_def toolbar_icons_def toolbar_sizes_def
  toolbar_filename_def str_sizes

lemmas launch_unfold = create_launch_screen_def launch_sizes_def save_result_launch

lemma app_icon_unfold:
  "create_app_icon E =
     save_iconset
       (app_icon_final E (projr (resolve_font2 E ''/System/Library/Fonts/STHeiti Light.ttc''
          ''/System/Library/Fonts/PingFang.ttc'' 240)))
       ''AppIcon'' [''Icons'', ''AppIcon.iconset''] @
     [Save [''Icons'', ''AppIcon_1024.png'']
       (app_icon_final E (projr (resolve_font2 E ''/System/Library/Fonts/STHeiti Light.ttc''
          ''/System/Library/Fonts/PingFang.ttc'' 240)))]"
  by (simp add: create_app_icon_def resolve_font2_total Let_def)

lemma saved_save_iconset:
  "saved (save_iconset img name d) =
     map (\<lambda>(sz, label). (d @ [name @ ''_'' @ label @ ''.png''], Resized img sz sz)) iconset_sizes"
  by (simp add: save_iconset_def iconset_sizes_def)

lemma made_save_iconset: "made (save_iconset img name d) = ancestors d"
  by (simp add: save_iconset_def iconset_sizes_def)

lemma well_placed_app_icon: "well_placed D (create_app_icon E)"
  by (simp add: app_icon_unfold save_iconset_def iconset_sizes_def dir_exists_def ancestors_simps)

lemma well_placed_pieces: "well_placed D (create_pieces E)"
  by (simp add: pieces_unfold dir_exists_def ancestors_simps)

lemma well_placed_toolbar: "well_placed D create_toolbar_icons"
  by (simp add: toolbar_unfold dir_exists_def ancestors_simps)

lemma well_placed_ui: "well_placed D create_ui_elements"
  by (simp add: create_ui_elements_def dir_exists_def ancestors_simps)

lemma well_placed_launch: "well_placed D (create_launch_screen E)"
  by (simp add: launch_unfold dir_exists_def ancestors_simps)

lemma well_placed_board: "well_placed D (board_ops img) \<longleftrightarrow> [''BoardStyles''] \<in> D"
  by (simp add: board_ops_def dir_exists_def)

subsection \<open>The icon set\<close>

lemma file_dims_save_iconset:
  "file_dims (save_iconset img name d) =
     [(d @ [name @ ''_16x16.png''], 16, 16),
      (d @ [name @ ''_16x16@2x.png''], 32, 32),
      (d @ [name @ ''_32x32.png''], 32, 32),
      (d @ [name @ ''_32x32@2x.png''], 64, 64),
      (d @ [name @ ''_128x128.png''], 128, 128),
      (d @ [name @ ''_128x128@2x.png''], 256, 256),
      (d @ [name @ ''_256x256.png''], 256, 256),
      (d @ [name @ ''_256x256@2x.png''], 512, 512),
      (d @ [name @ ''_512x512.png''], 512, 512),
      (d @ [name @ ''_512x512@2x.png''], 1024, 1024)]"
  by (simp add: file_dims_def saved_save_iconset iconset_sizes_def)

lemma self_ancestor: "d \<noteq> [] \<Longrightarrow> d \<in> ancestors d"
proof -
  assume "d \<noteq> []"
  then have "length d \<in> set [1..<Suc (length d)]" by (cases d) simp_all
  moreover have "take (length d) d = d" by simp
  ultimately show ?thesis unfolding ancestors_def by force
qed

lemma exec_save_iconset:
  assumes "d \<noteq> []" "disk_accepts E (save_iconset img name d)"
  shows "exec_ops E (save_iconset img name d) s =
     (None, s\<lparr>dirs := dirs s \<union> ancestors d,
               files := files s @ saved (save_iconset img name d)\<rparr>)"
proof -
  have "d \<in> ancestors d"
    using assms(1) by (rule self_ancestor)
  then have "well_placed (dirs s) (save_iconset img name d)"
    by (simp add: save_iconset_def iconset_sizes_def dir_exists_def)
  with assms(2) have "ops_ok E (dirs s) (save_iconset img name d)"
    by (simp add: ops_ok_iff)
  then show ?thesis
    by (simp add: exec_ops_ok made_save_iconset)
qed

text \<open>
  C3, as amended. \<^verbatim>\<open>save_iconset\<close> creates the icon-set directory and, on a disk
  that accepts the writes, saves exactly ten files, one per entry of its table in table
  order, named \<^verbatim>\<open><name>_<label>.png\<close> with ten different labels, each the image
  resized to the pixel size of its entry. The ten entries have only seven different pixel
  sizes: 32, 256 and 512 pixels each belong to two labels.
\<close>

theorem save_iconset_ten_files:
  assumes "d \<noteq> []" and "disk_accepts E (save_iconset img name d)"
  shows "exec_ops E (save_iconset img name d) s =
           (None, s\<lparr>dirs := dirs s \<union> ancestors d,
                     files := files s @ saved (save_iconset img name d)\<rparr>)
       \<and> saved (save_iconset img name d) =
           map (\<lambda>(sz, label). (d @ [name @ ''_'' @ label @ ''.png''], Resized img sz sz))
             [(16, ''16x16''), (32, ''16x16@2x''), (32, ''32x32''), (64, ''32x32@2x''),
              (128, ''128x128''), (256, ''128x128@2x''), (256, ''256x256''),
              (512, ''256x256@2x''), (512, ''512x512''), (1024, ''512x512@2x'')]
       \<and> length (saved (save_iconset img name d)) = 10
       \<and> distinct (map fst (saved (save_iconset img name d)))
       \<and> set (map (\<lambda>(p, w, h). w) (file_dims (save_iconset img name d))) =
           {16, 32, 64, 128, 256, 512, 1024}
       \<and> card (set (map (\<lambda>(p, w, h). w) (file_dims (save_iconset img name d)))) = 7"
proof -
  have run: "exec_ops E (save_iconset img name d) s =
           (None, s\<lparr>dirs := dirs s \<union> ancestors d,
                     files := files s @ saved (save_iconset img name d)\<rparr>)"
    using assms by (rule exec_save_iconset)
  have tab: "saved (save_iconset img name d) =
           map (\<lambda>(sz, label). (d @ [name @ ''_'' @ label @ ''.png''], Resized img sz sz))
             [(16, ''16x16''), (32, ''16x16@2x''), (32, ''32x32''), (64, ''32x32@2x''),
              (128, ''128x128''), (256, ''128x128@2x''), (256, ''256x256''),
              (512, ''256x256@2x''), (512, ''512x512''), (1024, ''512x512@2x'')]"
    by (simp add: saved_save_iconset iconset_sizes_def)
  have len: "length (saved (save_iconset img name d)) = 10"
    by (simp add: tab)
  have dist: "distinct (map fst (saved (save_iconset img name d)))"
    by (simp add: tab)
  have sizes: "set (map (\<lambda>(p, w, h). w) (file_dims (save_iconset img name d))) =
           {16, 32, 64, 128, 256, 512, 1024}"
    by (auto simp: file_dims_save_iconset)
  have "card {16, 32, 64, 128, 256, 512, 1024 :: int} = 7" by simp
  with sizes have c: "card (set (map (\<lambda>(p, w, h). w) (file_dims (save_iconset img name d)))) = 7"
    by simp
  from run tab len dist sizes c show ?thesis by blast
qed

theorem save_iconset_ten_files_witness:
  "[''Icons'', ''AppIcon.iconset''] \<noteq> []
   \<and> disk_accepts example_env
       (save_iconset (Canvas ''RGBA'' 1024 1024 (RGBA 0 0 0 0) []) ''AppIcon''
          [''Icons'', ''AppIcon.iconset''])
   \<and> map fst (files (snd (exec_ops example_env
       (save_iconset (Canvas ''RGBA'' 1024 1024 (RGBA 0 0 0 0) []) ''AppIcon''
          [''Icons'', ''AppIcon.iconset'']) example_state))) =
       [[''Icons'', ''AppIcon.iconset'', ''AppIcon_16x16.png''],
        [''Icons'', ''AppIcon.iconset'', ''AppIcon_16x16@2x.png''],
        [''Icons'', ''AppIcon.iconset'', ''AppIcon_32x32.png''],
        [''Icons'', ''AppIcon.iconset'', ''AppIcon_32x32@2x.png''],
        [''Icons'', ''AppIcon.iconset'', ''AppIcon_128x128.png''],
        [''Icons'', ''AppIcon.iconset'', ''AppIcon_128x128@2x.png''],
        [''Icons'', ''AppIcon.iconset'', ''AppIcon_256x256.png''],
        [''Icons'', ''AppIcon.iconset'', ''AppIcon_256x256@2x.png''],
        [''Icons'', ''AppIcon.iconset'', ''AppIcon_512x512.png''],
        [''Icons'', ''AppIcon.iconset'', ''AppIcon_512x512@2x.png'']]"
proof -
  have h1: "[''Icons'', ''AppIcon.iconset''] \<noteq> []" by simp
  have h2: "disk_accepts example_env
       (save_iconset (Canvas ''RGBA'' 1024 1024 (RGBA 0 0 0 0) []) ''AppIcon''
          [''Icons'', ''AppIcon.iconset''])"
    by (simp add: disk_accepts_def example_env_def list_all_iff)
  from save_iconset_ten_files [OF h1 h2, of example_state] h1 h2 show ?thesis
    by (simp add: example_state_def)
qed

text \<open>
  C3, as stated, fails: the labels do not correspond to different sizes. In the icon set
  of the application icon the files \<^verbatim>\<open>AppIcon_16x16@2x.png\<close> and
  \<^verbatim>\<open>AppIcon_32x32.png\<close> are both 32 pixels wide, so the sizes of the ten files are
  not pairwise different.
\<close>

theorem save_iconset_sizes_repeat:
  "file_dims (save_iconset (Canvas ''RGBA'' 1024 1024 (RGBA 0 0 0 0) []) ''AppIcon''
       [''Icons'', ''AppIcon.iconset'']) ! 1 =
     ([''Icons'', ''AppIcon.iconset'', ''AppIcon_16x16@2x.png''], 32, 32)
   \<and> file_dims (save_iconset (Canvas ''RGBA'' 1024 1024 (RGBA 0 0 0 0) []) ''AppIcon''
       [''Icons'', ''AppIcon.iconset'']) ! 2 =
     ([''Icons'', ''AppIcon.iconset'', ''AppIcon_32x32.png''], 32, 32)
   \<and> \<not> distinct (map (fst \<circ> snd)
       (file_dims (save_iconset (Canvas ''RGBA'' 1024 1024 (RGBA 0 0 0 0) []) ''AppIcon''
          [''Icons'', ''AppIcon.iconset''])))"
  by (simp add: file_dims_save_iconset)

subsection \<open>The application icon\<close>

lemma disk_accepts_example: "disk_accepts example_env cs"
  by (simp add: disk_accepts_def example_env_def list_all_iff)

lemma exec_well_placed:
  assumes "well_placed (dirs s) cs" "disk_accepts E cs"
  shows "exec_ops E cs s = (None, s\<lparr>dirs := dirs s \<union> made cs, files := files s @ saved cs\<rparr>)"
  using assms by (simp add: exec_ops_ok ops_ok_iff)

lemma made_app_icon:
  "made (create_app_icon E) = {[''Icons''], [''Icons'', ''AppIcon.iconset'']}"
  by (simp add: app_icon_unfold save_iconset_def iconset_sizes_def ancestors_simps)

lemma dims_app_icon_final:
  "width (app_icon_final E fnt) = 1024" "height (app_icon_final E fnt) = 1024"
  by (simp_all add: app_icon_final_def)

lemma file_dims_app_icon:
  "file_dims (create_app_icon E) =
     [([''Icons'', ''AppIcon.iconset'', ''AppIcon_16x16.png''], 16, 16),
      ([''Icons'', ''AppIcon.iconset'', ''AppIcon_16x16@2x.png''], 32, 32),
      ([''Icons'', ''AppIcon.iconset'', ''AppIcon_32x32.png''], 32, 32),
      ([''Icons'', ''AppIcon.iconset'', ''AppIcon_32x32@2x.png''], 64, 64),
      ([''Icons'', ''AppIcon.iconset'', ''AppIcon_128x128.png''], 128, 128),
      ([''Icons'', ''AppIcon.iconset'', ''AppIcon_128x128@2x.png''], 256, 256),
      ([''Icons'', ''AppIcon.iconset'', ''AppIcon_256x256.png''], 256, 256),
      ([''Icons'', ''AppIcon.iconset'', ''AppIcon_256x256@2x.png''], 512, 512),
      ([''Icons'', ''AppIcon.iconset'', ''AppIcon_512x512.png''], 512, 512),
      ([''Icons'', ''AppIcon.iconset'', ''AppIcon_512x512@2x.png''], 1024, 1024),
      ([''Icons'', ''AppIcon_1024.png''], 1024, 1024)]"
  by (simp add: app_icon_unfold file_dims_def save_iconset_def iconset_sizes_def
      dims_app_icon_final)

text \<open>
  C9. On a disk that accepts the writes \<^verbatim>\<open>create_app_icon\<close> runs to its end and
  adds eleven files: the ten files of \<^verbatim>\<open>Icons/AppIcon.iconset\<close> written by
  \<^verbatim>\<open>save_iconset\<close> and then, separately, \<^verbatim>\<open>Icons/AppIcon_1024.png\<close>, which
  is the full-resolution image itself (not a resized copy) and is 1024 by 1024.
\<close>

theorem create_app_icon_eleven_files:
  assumes "disk_accepts E (create_app_icon E)"
  shows "exec_ops E (create_app_icon E) s =
           (None, s\<lparr>dirs := dirs s \<union> {[''Icons''], [''Icons'', ''AppIcon.iconset'']},
                     files := files s @ saved (create_app_icon E)\<rparr>)
       \<and> length (saved (create_app_icon E)) = 11
       \<and> distinct (map fst (saved (create_app_icon E)))
       \<and> (\<exists>final_img.
             saved (create_app_icon E) =
               saved (save_iconset final_img ''AppIcon'' [''Icons'', ''AppIcon.iconset'']) @
               [([''Icons'', ''AppIcon_1024.png''], final_img)]
           \<and> length (saved (save_iconset final_img ''AppIcon'' [''Icons'', ''AppIcon.iconset''])) = 10
           \<and> width final_img = 1024 \<and> height final_img = 1024)
       \<and> last (file_dims (create_app_icon E)) = ([''Icons'', ''AppIcon_1024.png''], 1024, 1024)"
proof -
  let ?img = "app_icon_final E (projr (resolve_font2 E ''/System/Library/Fonts/STHeiti Light.ttc''
          ''/System/Library/Fonts/PingFang.ttc'' 240))"
  have run: "exec_ops E (create_app_icon E) s =
           (None, s\<lparr>dirs := dirs s \<union> {[''Icons''], [''Icons'', ''AppIcon.iconset'']},
                     files := files s @ saved (create_app_icon E)\<rparr>)"
    using exec_well_placed [OF well_placed_app_icon assms, of s] by (simp add: made_app_icon)
  have len: "length (saved (create_app_icon E)) = 11"
    using arg_cong [OF file_dims_app_icon [of E], of length] by (simp add: file_dims_def)
  have "distinct (map fst (file_dims (create_app_icon E)))"
    by (simp add: file_dims_app_icon)
  moreover have "map fst (file_dims (create_app_icon E)) = map fst (saved (create_app_icon E))"
    by (simp add: file_dims_def case_prod_unfold)
  ultimately have dist: "distinct (map fst (saved (create_app_icon E)))" by simp
  have split: "saved (create_app_icon E) =
               saved (save_iconset ?img ''AppIcon'' [''Icons'', ''AppIcon.iconset'']) @
               [([''Icons'', ''AppIcon_1024.png''], ?img)]
           \<and> length (saved (save_iconset ?img ''AppIcon'' [''Icons'', ''AppIcon.iconset''])) = 10
           \<and> width ?img = 1024 \<and> height ?img = 1024"
    by (simp add: app_icon_unfold save_iconset_def iconset_sizes_def dims_app_icon_final)
  have lst: "last (file_dims (create_app_icon E)) = ([''Icons'', ''AppIcon_1024.png''], 1024, 1024)"
    by (simp add: file_dims_app_icon)
  from run len dist split lst show ?thesis by blast
qed

theorem create_app_icon_eleven_files_witness:
  "disk_accepts example_env (create_app_icon example_env)
   \<and> fst (exec_ops example_env (create_app_icon example_env) example_state) = None
   \<and> length (files (snd (exec_ops example_env (create_app_icon example_env) example_state))) = 11"
proof -
  have h: "disk_accepts example_env (create_app_icon example_env)"
    by (rule disk_accepts_example)
  from create_app_icon_eleven_files [OF h, of example_state] h show ?thesis
    by (simp add: example_state_def)
qed

subsection \<open>The pieces\<close>

lemma saved_pieces:
  "saved (create_pieces E) =
     concat (map (\<lambda>(dir, sz). concat (map (\<lambda>(style, create). concat (map (\<lambda>(name, k).
       [([''PieceStyles'', style, dir, ''Red_'' @ name @ ''.png''],
           projr (create E sz (red_pieces ! k) ''red'')),
        ([''PieceStyles'', style, dir, ''Black_'' @ name @ ''.png''],
           projr (create E sz (black_pieces ! k) ''black''))])
       [(''0'', 0), (''1'', 1), (''2'', 2), (''3'', 3), (''4'', 4), (''5'', 5), (''6'', 6)]))
       [(''Traditional'', create_traditional_piece), (''Modern'', create_modern_piece)]))
       [(''64'', 64), (''128'', 128), (''256'', 256)])"
  by (simp add: pieces_unfold)

lemma paths_pieces:
  "map fst (saved (create_pieces E)) =
     concat (map (\<lambda>dir. concat (map (\<lambda>style. concat (map (\<lambda>name.
       [[''PieceStyles'', style, dir, ''Red_'' @ name @ ''.png''],
        [''PieceStyles'', style, dir, ''Black_'' @ name @ ''.png'']])
       [''0'', ''1'', ''2'', ''3'', ''4'', ''5'', ''6'']))
       [''Traditional'', ''Modern'']))
       [''64'', ''128'', ''256''])"
  by (simp add: pieces_unfold)

lemma distinct_pieces: "distinct (map fst (saved (create_pieces E)))"
  unfolding paths_pieces by simp

lemma made_pieces:
  "made (create_pieces E) =
     {[''PieceStyles''], [''PieceStyles'', ''Traditional''], [''PieceStyles'', ''Modern''],
      [''PieceStyles'', ''Traditional'', ''64''], [''PieceStyles'', ''Modern'', ''64''],
      [''PieceStyles'', ''Traditional'', ''128''], [''PieceStyles'', ''Modern'', ''128''],
      [''PieceStyles'', ''Traditional'', ''256''], [''PieceStyles'', ''Modern'', ''256'']}"
  by (simp add: pieces_unfold ancestors_simps insert_commute)

text \<open>
  C2. On a disk that accepts the writes \<^verbatim>\<open>create_pieces\<close> runs to its end and
  adds 84 files with 84 different paths: for each size 64, 128, 256 and each style
  Traditional, Modern the fourteen files \<^verbatim>\<open>Red_0.png\<close>, \<^verbatim>\<open>Black_0.png\<close>, ...,
  \<^verbatim>\<open>Red_6.png\<close>, \<^verbatim>\<open>Black_6.png\<close> in
  \<^verbatim>\<open>PieceStyles/<style>/<size>/\<close>, where \<^verbatim>\<open>Red_k\<close> is the piece of the
  \<open>k\<close>-th red character and \<^verbatim>\<open>Black_k\<close> the piece of the \<open>k\<close>-th black
  character, drawn in that style at that size; there are seven characters of each colour.
\<close>

theorem create_pieces_files:
  assumes "disk_accepts E (create_pieces E)"
  shows "exec_ops E (create_pieces E) s =
           (None, s\<lparr>dirs := dirs s \<union>
                       {[''PieceStyles''], [''PieceStyles'', ''Traditional''], [''PieceStyles'', ''Modern''],
                        [''PieceStyles'', ''Traditional'', ''64''], [''PieceStyles'', ''Modern'', ''64''],
                        [''PieceStyles'', ''Traditional'', ''128''], [''PieceStyles'', ''Modern'', ''128''],
                        [''PieceStyles'', ''Traditional'', ''256''], [''PieceStyles'', ''Modern'', ''256'']},
                     files := files s @ saved (create_pieces E)\<rparr>)
       \<and> saved (create_pieces E) =
           concat (map (\<lambda>(dir, sz). concat (map (\<lambda>(style, create). concat (map (\<lambda>(name, k).
             [([''PieceStyles'', style, dir, ''Red_'' @ name @ ''.png''],
                 projr (create E sz (red_pieces ! k) ''red'')),
              ([''PieceStyles'', style, dir, ''Black_'' @ name @ ''.png''],
                 projr (create E sz (black_pieces ! k) ''black''))])
             [(''0'', 0), (''1'', 1), (''2'', 2), (''3'', 3), (''4'', 4), (''5'', 5), (''6'', 6)]))
             [(''Traditional'', create_traditional_piece), (''Modern'', create_modern_piece)]))
             [(''64'', 64), (''128'', 128), (''256'', 256)])
       \<and> length (saved (create_pieces E)) = 84
       \<and> distinct (map fst (saved (create_pieces E)))
       \<and> length red_pieces = 7 \<and> length black_pieces = 7"
proof -
  have run: "exec_ops E (create_pieces E) s =
           (None, s\<lparr>dirs := dirs s \<union> made (create_pieces E),
                     files := files s @ saved (create_pieces E)\<rparr>)"
    using well_placed_pieces assms by (rule exec_well_placed)
  have len: "length (saved (create_pieces E)) = 84"
    using arg_cong [OF paths_pieces [of E], of length] by simp
  have chars: "length red_pieces = 7 \<and> length black_pieces = 7"
    by (simp add: red_pieces_def black_pieces_def)
  from run len chars saved_pieces [of E] distinct_pieces [of E] show ?thesis
    unfolding made_pieces by blast
qed

theorem create_pieces_files_witness:
  "disk_accepts example_env (create_pieces example_env)
   \<and> fst (exec_ops example_env (create_pieces example_env) example_state) = None
   \<and> length (files (snd (exec_ops example_env (create_pieces example_env) example_state))) = 84"
proof -
  have h: "disk_accepts example_env (create_pieces example_env)"
    by (rule disk_accepts_example)
  from create_pieces_files [OF h, of example_state] h show ?thesis
    by (simp add: example_state_def)
qed

subsection \<open>The toolbar icons\<close>

lemma saved_toolbar:
  "saved create_toolbar_icons =
     concat (map (\<lambda>(name, icon_type, c).
       [([''Toolbar'', name @ ''_18x18.png''],
           Canvas ''RGBA'' 18 18 (RGBA 0 0 0 0) (toolbar_draw icon_type c 18)),
        ([''Toolbar'', name @ ''_24x24.png''],
           Canvas ''RGBA'' 24 24 (RGBA 0 0 0 0) (toolbar_draw icon_type c 24)),
        ([''Toolbar'', name @ ''_18x18@2x.png''],
           Canvas ''RGBA'' 36 36 (RGBA 0 0 0 0) (toolbar_draw icon_type c 36))])
       [(''NewGame'', ''new'', Hex ''#007AFF''), (''Undo'', ''undo'', Hex ''#5856D6''),
        (''Hint'', ''hint'', Hex ''#FF9500''), (''Settings'', ''settings'', Hex ''#8E8E93''),
        (''Analysis'', ''analysis'', Hex ''#34C759'')])"
  by (simp add: toolbar_unfold)

lemma made_toolbar: "made create_toolbar_icons = {[''Toolbar'']}"
  by (simp add: toolbar_unfold ancestors_simps)

lemma toolbar_suffix:
  "toolbar_filename name sz =
     name @ ''_'' @ str (if 24 < sz then sz div 2 else sz) @ ''x'' @
     str (if 24 < sz then sz div 2 else sz) @ (if 24 < sz then ''@2x'' else []) @ ''.png''"
  by (simp add: toolbar_filename_def Let_def)

text \<open>
  C4. On a disk that accepts the writes \<^verbatim>\<open>create_toolbar_icons\<close> runs to its end
  and adds fifteen files with fifteen different paths in \<^verbatim>\<open>Toolbar/\<close>: for each of
  NewGame, Undo, Hint, Settings, Analysis, in this order, \<^verbatim>\<open><Name>_18x18.png\<close>
  drawn at 18 pixels, \<^verbatim>\<open><Name>_24x24.png\<close> drawn at 24 pixels and
  \<^verbatim>\<open><Name>_18x18@2x.png\<close> drawn at 36 pixels. For every drawn size the name carries
  the suffix \<^verbatim>\<open>@2x\<close> exactly when the size exceeds 24, and then the size in the name
  is halved.
\<close>

theorem create_toolbar_icons_files:
  assumes "disk_accepts E create_toolbar_icons"
  shows "exec_ops E create_toolbar_icons s =
           (None, s\<lparr>dirs := dirs s \<union> {[''Toolbar'']},
                     files := files s @ saved create_toolbar_icons\<rparr>)
       \<and> saved create_toolbar_icons =
           concat (map (\<lambda>(name, icon_type, c).
             [([''Toolbar'', name @ ''_18x18.png''],
                 Canvas ''RGBA'' 18 18 (RGBA 0 0 0 0) (toolbar_draw icon_type c 18)),
              ([''Toolbar'', name @ ''_24x24.png''],
                 Canvas ''RGBA'' 24 24 (RGBA 0 0 0 0) (toolbar_draw icon_type c 24)),
              ([''Toolbar'', name @ ''_18x18@2x.png''],
                 Canvas ''RGBA'' 36 36 (RGBA 0 0 0 0) (toolbar_draw icon_type c 36))])
             [(''NewGame'', ''new'', Hex ''#007AFF''), (''Undo'', ''undo'', Hex ''#5856D6''),
              (''Hint'', ''hint'', Hex ''#FF9500''), (''Settings'', ''settings'', Hex ''#8E8E93''),
              (''Analysis'', ''analysis'', Hex ''#34C759'')])
       \<and> length (saved create_toolbar_icons) = 15
       \<and> distinct (map fst (saved create_toolbar_icons))
       \<and> toolbar_filename name sz =
           name @ ''_'' @ str (if 24 < sz then sz div 2 else sz) @ ''x'' @
           str (if 24 < sz then sz div 2 else sz) @ (if 24 < sz then ''@2x'' else []) @ ''.png''"
proof -
  have run: "exec_ops E create_toolbar_icons s =
           (None, s\<lparr>dirs := dirs s \<union> made create_toolbar_icons,
                     files := files s @ saved create_toolbar_icons\<rparr>)"
    using well_placed_toolbar assms by (rule exec_well_placed)
  have len: "length (saved create_toolbar_icons) = 15"
    by (simp add: saved_toolbar)
  have dist: "distinct (map fst (saved create_toolbar_icons))"
    by (simp add: saved_toolbar)
  from run len dist saved_toolbar toolbar_suffix [of name sz] show ?thesis
    unfolding made_toolbar by blast
qed

theorem create_toolbar_icons_files_witness:
  "disk_accepts example_env create_toolbar_icons
   \<and> map fst (files (snd (exec_ops example_env create_toolbar_icons example_state))) =
       [[''Toolbar'', ''NewGame_18x18.png''], [''Toolbar'', ''NewGame_24x24.png''],
        [''Toolbar'', ''NewGame_18x18@2x.png''],
        [''Toolbar'', ''Undo_18x18.png''], [''Toolbar'', ''Undo_24x24.png''],
        [''Toolbar'', ''Undo_18x18@2x.png''],
        [''Toolbar'', ''Hint_18x18.png''], [''Toolbar'', ''Hint_24x24.png''],
        [''Toolbar'', ''Hint_18x18@2x.png''],
        [''Toolbar'', ''Settings_18x18.png''], [''Toolbar'', ''Settings_24x24.png''],
        [''Toolbar'', ''Settings_18x18@2x.png''],
        [''Toolbar'', ''Analysis_18x18.png''], [''Toolbar'', ''Analysis_24x24.png''],
        [''Toolbar'', ''Analysis_18x18@2x.png'']]"
proof -
  have h: "disk_accepts example_env create_toolbar_icons"
    by (rule disk_accepts_example)
  from create_toolbar_icons_files [OF h, of example_state] h show ?thesis
    by (simp add: example_state_def)
qed

subsection \<open>Font resolution never raises\<close>

lemma first_font_find:
  "first_font E sz ps =
     map_option (\<lambda>p. Truetype p sz) (find (\<lambda>p. path_exists E p \<and> truetype_loads E p sz) ps)"
  by (induction ps) (simp_all add: truetype_def)

lemma resolve_font_find:
  "resolve_font E sz =
     Inr (case find (\<lambda>p. path_exists E p \<and> truetype_loads E p sz)
                 [''/System/Library/Fonts/STHeiti Light.ttc'',
                  ''/System/Library/Fonts/PingFang.ttc'',
                  ''/System/Library/Fonts/Hiragino Sans GB.ttc''] of
            Some p \<Rightarrow> Truetype p sz
          | None \<Rightarrow> Default_font)"
  unfolding resolve_font_total first_font_find font_paths_def
  by (simp split: option.splits)

lemma fonts_traditional_resolved:
  "resolve_font E ((sz * 55) div 100) = Inr f \<Longrightarrow>
   create_traditional_piece E sz ch col = Inr img \<Longrightarrow> fonts_of img = [f]"
  by (auto simp: create_traditional_piece_def int_scaled_def Let_def)

lemma fonts_modern_resolved:
  "resolve_font E ((sz * 5) div 10) = Inr f \<Longrightarrow>
   create_modern_piece E sz ch col = Inr img \<Longrightarrow> fonts_of img = [f]"
  by (auto simp: create_modern_piece_def int_scaled_def Let_def)

lemma fonts_launch_resolved:
  "resolve_font E ((min w h div 8 * 12) div 10) = Inr f \<Longrightarrow>
   resolve_font2 E ''/System/Library/Fonts/SFProDisplay-Semibold.otf''
     ''/System/Library/Fonts/Helvetica.ttc'' 36 = Inr f2 \<Longrightarrow>
   launch_image E w h = Inr img \<Longrightarrow> fonts_of img = [f, f2]"
  by (auto simp: launch_image_def int_scaled_def Let_def)

lemma fonts_app_icon_resolved:
  assumes "resolve_font2 E ''/System/Library/Fonts/STHeiti Light.ttc''
             ''/System/Library/Fonts/PingFang.ttc'' 240 = Inr f"
    and "(pth, img) \<in> set (saved (create_app_icon E))"
  shows "fonts_of img = [f]"
proof -
  have gradient: "fonts_of_op (gradient_line sz y) = []" for sz y
    by (simp add: gradient_line_def Let_def)
  have final: "fonts_of (app_icon_final E fnt) = [fnt]" for fnt
    by (simp add: app_icon_final_def app_icon_canvas_def app_icon_mask_def Let_def gradient)
  from assms show ?thesis
    by (auto simp: create_app_icon_def save_iconset_def iconset_sizes_def final Let_def)
qed

lemma fonts_traditional:
  "create_traditional_piece E sz ch col = Inr img \<Longrightarrow>
   fonts_of img =
     [case find (\<lambda>p. path_exists E p \<and> truetype_loads E p ((sz * 55) div 100))
             [''/System/Library/Fonts/STHeiti Light.ttc'',
              ''/System/Library/Fonts/PingFang.ttc'',
              ''/System/Library/Fonts/Hiragino Sans GB.ttc''] of
        Some p \<Rightarrow> Truetype p ((sz * 55) div 100)
      | None \<Rightarrow> Default_font]"
  by (rule fonts_traditional_resolved [OF resolve_font_find])

lemma fonts_modern:
  "create_modern_piece E sz ch col = Inr img \<Longrightarrow>
   fonts_of img =
     [case find (\<lambda>p. path_exists E p \<and> truetype_loads E p ((sz * 5) div 10))
             [''/System/Library/Fonts/STHeiti Light.ttc'',
              ''/System/Library/Fonts/PingFang.ttc'',
              ''/System/Library/Fonts/Hiragino Sans GB.ttc''] of
        Some p \<Rightarrow> Truetype p ((sz * 5) div 10)
      | None \<Rightarrow> Default_font]"
  by (rule fonts_modern_resolved [OF resolve_font_find])

lemma fonts_launch:
  "launch_image E w h = Inr img \<Longrightarrow>
   fonts_of img =
     [case find (\<lambda>p. path_exists E p \<and> truetype_loads E p ((min w h div 8 * 12) div 10))
             [''/System/Library/Fonts/STHeiti Light.ttc'',
              ''/System/Library/Fonts/PingFang.ttc'',
              ''/System/Library/Fonts/Hiragino Sans GB.ttc''] of
        Some p \<Rightarrow> Truetype p ((min w h div 8 * 12) div 10)
      | None \<Rightarrow> Default_font,
      if truetype_loads E ''/System/Library/Fonts/SFProDisplay-Semibold.otf'' 36
      then Truetype ''/System/Library/Fonts/SFProDisplay-Semibold.otf'' 36
      else if truetype_loads E ''/System/Library/Fonts/Helvetica.ttc'' 36
      then Truetype ''/System/Library/Fonts/Helvetica.ttc'' 36
      else Default_font]"
  by (rule fonts_launch_resolved [OF resolve_font_find resolve_font2_total])

lemma fonts_app_icon:
  assumes "(pth, img) \<in> set (saved (create_app_icon E))"
  shows "fonts_of img =
     [if truetype_loads E ''/System/Library/Fonts/STHeiti Light.ttc'' 240
      then Truetype ''/System/Library/Fonts/STHeiti Light.ttc'' 240
      else if truetype_loads E ''/System/Library/Fonts/PingFang.ttc'' 240
      then Truetype ''/System/Library/Fonts/PingFang.ttc'' 240
      else Default_font]"
  using assms by (rule fonts_app_icon_resolved [OF resolve_font2_total])

lemma no_font_error_traditional: "create_traditional_piece E sz ch col \<noteq> Inl (Font_error q)"
  using traditional_Inr [of E sz ch col] by auto

lemma no_font_error_modern: "create_modern_piece E sz ch col \<noteq> Inl (Font_error q)"
  using modern_Inr [of E sz ch col] by auto

lemma no_font_error_launch: "launch_image E w h \<noteq> Inl (Font_error q)"
  using launch_Inr [of E w h] by auto

lemma no_raise_app_icon: "Raise e \<notin> set (create_app_icon E)"
  by (auto simp: app_icon_unfold save_iconset_def)

lemma no_raise_pieces: "Raise e \<notin> set (create_pieces E)"
  by (auto simp: create_pieces_def style_ops_def save_result_traditional save_result_modern)

lemma no_raise_launch: "Raise e \<notin> set (create_launch_screen E)"
  by (auto simp: create_launch_screen_def save_result_launch)

text \<open>
  C6. Font resolution always yields a font and no font exception leaves a routine. The
  loop of the piece and launch-screen routines yields the first path of its list, in list
  order, that exists and loads, and the default font when there is none; the nested
  \<^verbatim>\<open>try\<close> blocks of the application icon and of the launch screen's application
  name yield the first of their two paths that loads, and the default font when neither
  does. Each text-drawing routine resolves its font this way and draws its text with the
  font resolved: an image returned by a piece routine has exactly one text call, in the
  font resolved at 55 percent (traditional) or 50 percent (modern) of the piece size; an
  image returned by the launch screen has two, the character in the font resolved at 1.2
  times the piece radius and the application name in the font resolved from its two paths
  at size 36; every image the application icon saves carries one text call, in the font
  resolved from its two paths at size 240. A failure to load a font never is the result
  of a routine, nor raised between its file-system calls.
\<close>

theorem font_resolution_total:
  "resolve_font E sz =
     Inr (case find (\<lambda>p. path_exists E p \<and> truetype_loads E p sz)
                 [''/System/Library/Fonts/STHeiti Light.ttc'',
                  ''/System/Library/Fonts/PingFang.ttc'',
                  ''/System/Library/Fonts/Hiragino Sans GB.ttc''] of
            Some p \<Rightarrow> Truetype p sz
          | None \<Rightarrow> Default_font)
   \<and> resolve_font2 E p1 p2 sz =
       Inr (if truetype_loads E p1 sz then Truetype p1 sz
            else if truetype_loads E p2 sz then Truetype p2 sz
            else Default_font)
   \<and> create_traditional_piece E sz ch col \<noteq> Inl (Font_error q)
   \<and> (create_traditional_piece E sz ch col = Inr img \<longrightarrow>
        fonts_of img =
          [case find (\<lambda>p. path_exists E p \<and> truetype_loads E p ((sz * 55) div 100))
                  [''/System/Library/Fonts/STHeiti Light.ttc'',
                   ''/System/Library/Fonts/PingFang.ttc'',
                   ''/System/Library/Fonts/Hiragino Sans GB.ttc''] of
             Some p \<Rightarrow> Truetype p ((sz * 55) div 100)
           | None \<Rightarrow> Default_font])
   \<and> create_modern_piece E sz ch col \<noteq> Inl (Font_error q)
   \<and> (create_modern_piece E sz ch col = Inr img \<longrightarrow>
        fonts_of img =
          [case find (\<lambda>p. path_exists E p \<and> truetype_loads E p ((sz * 5) div 10))
                  [''/System/Library/Fonts/STHeiti Light.ttc'',
                   ''/System/Library/Fonts/PingFang.ttc'',
                   ''/System/Library/Fonts/Hiragino Sans GB.ttc''] of
             Some p \<Rightarrow> Truetype p ((sz * 5) div 10)
           | None \<Rightarrow> Default_font])
   \<and> launch_image E w h \<noteq> Inl (Font_error q)
   \<and> (launch_image E w h = Inr img \<longrightarrow>
        fonts_of img =
          [case find (\<lambda>p. path_exists E p \<and> truetype_loads E p ((min w h div 8 * 12) div 10))
                  [''/System/Library/Fonts/STHeiti Light.ttc'',
                   ''/System/Library/Fonts/PingFang.ttc'',
                   ''/System/Library/Fonts/Hiragino Sans GB.ttc''] of
             Some p \<Rightarrow> Truetype p ((min w h div 8 * 12) div 10)
           | None \<Rightarrow> Default_font,
           if truetype_loads E ''/System/Library/Fonts/SFProDisplay-Semibold.otf'' 36
           then Truetype ''/System/Library/Fonts/SFProDisplay-Semibold.otf'' 36
           else if truetype_loads E ''/System/Library/Fonts/Helvetica.ttc'' 36
           then Truetype ''/System/Library/Fonts/Helvetica.ttc'' 36
           else Default_font])
   \<and> ((pth, img) \<in> set (saved (create_app_icon E)) \<longrightarrow>
        fonts_of img =
          [if truetype_loads E ''/System/Library/Fonts/STHeiti Light.ttc'' 240
           then Truetype ''/System/Library/Fonts/STHeiti Light.ttc'' 240
           else if truetype_loads E ''/System/Library/Fonts/PingFang.ttc'' 240
           then Truetype ''/System/Library/Fonts/PingFang.ttc'' 240
           else Default_font])
   \<and> Raise (Font_error q) \<notin> set (create_app_icon E)
   \<and> Raise (Font_error q) \<notin> set (create_pieces E)
   \<and> Raise (Font_error q) \<notin> set (create_launch_screen E)"
  apply (intro conjI impI)
  apply (rule resolve_font_find)
  apply (rule resolve_font2_total)
  apply (rule no_font_error_traditional)
  apply (erule fonts_traditional)
  apply (rule no_font_error_modern)
  apply (erule fonts_modern)
  apply (rule no_font_error_launch)
  apply (erule fonts_launch)
  apply (erule fonts_app_icon)
  apply (rule no_raise_app_icon)
  apply (rule no_raise_pieces)
  apply (rule no_raise_launch)
  done

theorem font_resolution_total_witness:
  "create_traditional_piece
     (example_env\<lparr>path_exists := (\<lambda>p. p = ''/System/Library/Fonts/PingFang.ttc''),
                  truetype_loads := (\<lambda>p sz. True)\<rparr>) 64 [0x5E05] ''red'' =
   Inr (projr (create_traditional_piece
     (example_env\<lparr>path_exists := (\<lambda>p. p = ''/System/Library/Fonts/PingFang.ttc''),
                  truetype_loads := (\<lambda>p sz. True)\<rparr>) 64 [0x5E05] ''red''))
   \<and> fonts_of (projr (create_traditional_piece
     (example_env\<lparr>path_exists := (\<lambda>p. p = ''/System/Library/Fonts/PingFang.ttc''),
                  truetype_loads := (\<lambda>p sz. True)\<rparr>) 64 [0x5E05] ''red'')) =
     [Truetype ''/System/Library/Fonts/PingFang.ttc'' 35]
   \<and> fonts_of (projr (create_traditional_piece example_env 64 [0x5E05] ''red'')) =
     [Default_font]"
proof -
  let ?E = "example_env\<lparr>path_exists := (\<lambda>p. p = ''/System/Library/Fonts/PingFang.ttc''),
                  truetype_loads := (\<lambda>p sz. True)\<rparr>"
  have h1: "create_traditional_piece ?E 64 [0x5E05] ''red'' =
      Inr (projr (create_traditional_piece ?E 64 [0x5E05] ''red''))"
    using traditional_Inr [of ?E 64 "[0x5E05]" "''red''"] by auto
  have h2: "create_traditional_piece example_env 64 [0x5E05] ''red'' =
      Inr (projr (create_traditional_piece example_env 64 [0x5E05] ''red''))"
    using traditional_Inr [of example_env 64 "[0x5E05]" "''red''"] by auto
  note piece = font_resolution_total
    [THEN conjunct2, THEN conjunct2, THEN conjunct2, THEN conjunct1, THEN mp]
  have a: "fonts_of (projr (create_traditional_piece ?E 64 [0x5E05] ''red'')) =
      [Truetype ''/System/Library/Fonts/PingFang.ttc'' 35]"
    using piece [OF h1] by (simp add: example_env_def)
  have b: "fonts_of (projr (create_traditional_piece example_env 64 [0x5E05] ''red'')) =
      [Default_font]"
    using piece [OF h2] by (simp add: example_env_def)
  from h1 a b show ?thesis by (intro conjI)
qed

subsection \<open>Colour components\<close>

lemma color_ok_wood_color: "color_ok (wood_color cv)"
  by (simp add: wood_color_def byte_def)

lemma colors_wood_grain:
  "list_all color_ok (concat (map op_colors (fst (wood_grain E sz n g))))"
proof (induction n arbitrary: g)
  case 0
  then show ?case by simp
next
  case (Suc n)
  then show ?case
    by (simp add: color_ok_wood_color split: prod.splits) (metis fst_conv)
qed

lemma colors_board_grid: "list_all color_ok (concat (map op_colors (board_grid sz (Hex h) w)))"
  by (simp add: board_grid_def Let_def list_all_iff)

lemma colors_wood_texture: "list_all color_ok (colors_of (fst (wood_texture E s)))"
proof -
  obtain grain g' where g: "wood_grain E 1024 5000 (rng_seed E 42) = (grain, g')"
    by (cases "wood_grain E 1024 5000 (rng_seed E 42)")
  have "list_all color_ok (concat (map op_colors grain))"
    using colors_wood_grain [of E 1024 5000 "rng_seed E 42"] g by simp
  with g show ?thesis
    by (simp add: wood_texture_def colors_of_def Let_def colors_board_grid)
qed

lemma countdown_10: "countdown 10 = [10, 9, 8, 7, 6, 5, 4, 3, 2, 1]"
  by (simp add: countdown_def upto_rec1)

lemma countdown_5: "countdown 5 = [5, 4, 3, 2, 1]"
  by (simp add: countdown_def upto_rec1)

lemma gradient_color:
  assumes "0 \<le> y" "y < sz"
  shows "list_all color_ok (op_colors (gradient_line sz y))"
proof -
  let ?p = "(of_int y :: rat) / of_int sz"
  have p0: "0 \<le> ?p" using assms by simp
  have p1: "?p < 1" using assms by simp
  have r: "44 \<le> \<lfloor>44 + (60 - 44) * ?p\<rfloor>" "\<lfloor>44 + (60 - 44) * ?p\<rfloor> \<le> 60"
    using p0 p1 by (simp_all add: le_floor_iff floor_le_iff)
  have b: "46 \<le> \<lfloor>46 + (64 - 46) * ?p\<rfloor>" "\<lfloor>46 + (64 - 46) * ?p\<rfloor> \<le> 64"
    using p0 p1 by (simp_all add: le_floor_iff floor_le_iff)
  from r b show ?thesis
    by (simp add: gradient_line_def Let_def byte_def)
qed

lemma colors_app_icon_canvas: "list_all color_ok (colors_of (app_icon_canvas E fnt))"
proof -
  have "list_all color_ok (op_colors (gradient_line 1024 y))" if "y \<in> set [0..1023]" for y
    using that by (intro gradient_color) simp_all
  then have "list_all color_ok (concat (map op_colors (map (gradient_line 1024) [0..1023])))"
    by (simp add: list_all_iff)
  then show ?thesis
    by (simp add: app_icon_canvas_def colors_of_def Let_def)
qed

text \<open>
  C10. Every computed colour component is a byte. Each channel of a wood-grain colour is
  clamped to 0..255 whatever \<^verbatim>\<open>color_var\<close> is (between -20 and 20 the clamp does
  not even act), so every colour of the wood board is in range for every generator; the
  outline alphas of the selection highlight are 10, 14, ..., 46 and those of the check
  warning are 25, 40, 55, 70, 85; the gradient colours of the application icon are in
  range as well.
\<close>

theorem color_components_in_range:
  "color_ok (wood_color color_var)
   \<and> list_all color_ok (colors_of (fst (wood_texture E s)))
   \<and> map outline_alpha (draw_ops selection_highlight) =
       [Some 10, Some 14, Some 18, Some 22, Some 26, Some 30, Some 34, Some 38, Some 42, Some 46]
   \<and> list_all color_ok (colors_of selection_highlight)
   \<and> map outline_alpha (draw_ops check_warning) = [Some 25, Some 40, Some 55, Some 70, Some 85]
   \<and> list_all color_ok (colors_of check_warning)
   \<and> list_all color_ok (colors_of (app_icon_canvas E fnt))"
proof -
  have sel: "map outline_alpha (draw_ops selection_highlight) =
       [Some 10, Some 14, Some 18, Some 22, Some 26, Some 30, Some 34, Some 38, Some 42, Some 46]"
    by (simp add: selection_highlight_def countdown_10)
  have sel_ok: "list_all color_ok (colors_of selection_highlight)"
    by (simp add: selection_highlight_def countdown_10 colors_of_def byte_def)
  have chk: "map outline_alpha (draw_ops check_warning) = [Some 25, Some 40, Some 55, Some 70, Some 85]"
    by (simp add: check_warning_def countdown_5)
  have chk_ok: "list_all color_ok (colors_of check_warning)"
    by (simp add: check_warning_def countdown_5 colors_of_def byte_def)
  from sel sel_ok chk chk_ok color_ok_wood_color [of color_var] colors_wood_texture [of E s]
    colors_app_icon_canvas [of E fnt]
  show ?thesis by blast
qed

subsection \<open>Dimensions of the saved images\<close>

lemma dims_wood_texture:
  "width (fst (wood_texture E s)) = 1024" "height (fst (wood_texture E s)) = 1024"
  by (simp_all add: wood_texture_def Let_def split: prod.splits)

lemma file_dims_board:
  "file_dims (board_ops (fst (wood_texture E s))) =
     [([''BoardStyles'', ''Board_Wood.png''], 1024, 1024),
      ([''BoardStyles'', ''Board_Modern_Light.png''], 1024, 1024),
      ([''BoardStyles'', ''Board_Modern_Dark.png''], 1024, 1024)]"
  by (simp add: file_dims_def board_ops_def dims_wood_texture board_modern_light_def
      board_modern_dark_def)

lemma file_dims_pieces:
  "file_dims (create_pieces E) =
     concat (map (\<lambda>(dir, sz). concat (map (\<lambda>style. concat (map (\<lambda>name.
       [([''PieceStyles'', style, dir, ''Red_'' @ name @ ''.png''], sz, sz),
        ([''PieceStyles'', style, dir, ''Black_'' @ name @ ''.png''], sz, sz)])
       [''0'', ''1'', ''2'', ''3'', ''4'', ''5'', ''6'']))
       [''Traditional'', ''Modern'']))
       [(''64'', 64), (''128'', 128), (''256'', 256)])"
  by (simp add: file_dims_def saved_pieces dims_traditional dims_modern)

lemma file_dims_toolbar:
  "file_dims create_toolbar_icons =
     concat (map (\<lambda>name.
       [([''Toolbar'', name @ ''_18x18.png''], 18, 18),
        ([''Toolbar'', name @ ''_24x24.png''], 24, 24),
        ([''Toolbar'', name @ ''_18x18@2x.png''], 36, 36)])
       [''NewGame'', ''Undo'', ''Hint'', ''Settings'', ''Analysis''])"
  by (simp add: file_dims_def saved_toolbar)

lemma file_dims_ui:
  "file_dims create_ui_elements =
     [([''UI'', ''Selection_Highlight.png''], 256, 256),
      ([''UI'', ''Move_Indicator.png''], 256, 256),
      ([''UI'', ''Check_Warning.png''], 256, 256),
      ([''UI'', ''Last_Move_Indicator.png''], 256, 256)]"
  by (simp add: file_dims_def create_ui_elements_def selection_highlight_def move_indicator_def
      check_warning_def last_move_indicator_def Let_def)

lemma file_dims_launch:
  "file_dims (create_launch_screen E) =
     [([''LaunchScreen'', ''LaunchScreen_800x600.png''], 800, 600),
      ([''LaunchScreen'', ''LaunchScreen_1024x768.png''], 1024, 768),
      ([''LaunchScreen'', ''LaunchScreen_1200x800.png''], 1200, 800),
      ([''LaunchScreen'', ''LaunchScreen_1600x1000.png''], 1600, 1000)]"
  by (simp add: file_dims_def launch_unfold dims_launch)

text \<open>
  C5. The images the routines save have the dimensions of their size tables, all non-zero:
  every icon-set file is \<open>n\<close> by \<open>n\<close> for its entry \<open>n\<close> and the master icon is
  1024 by 1024; the three board textures are 1024 by 1024; a piece in the directory of
  size \<open>s\<close> is \<open>s\<close> by \<open>s\<close>; a toolbar icon is as large as it was drawn (18, 24
  and, for the \<^verbatim>\<open>@2x\<close> file, 36 pixels); the four overlays are 256 by 256; a launch
  screen has the width and height of its entry.
\<close>

theorem saved_images_have_table_dimensions:
  "file_dims (create_app_icon E) =
     [([''Icons'', ''AppIcon.iconset'', ''AppIcon_16x16.png''], 16, 16),
      ([''Icons'', ''AppIcon.iconset'', ''AppIcon_16x16@2x.png''], 32, 32),
      ([''Icons'', ''AppIcon.iconset'', ''AppIcon_32x32.png''], 32, 32),
      ([''Icons'', ''AppIcon.iconset'', ''AppIcon_32x32@2x.png''], 64, 64),
      ([''Icons'', ''AppIcon.iconset'', ''AppIcon_128x128.png''], 128, 128),
      ([''Icons'', ''AppIcon.iconset'', ''AppIcon_128x128@2x.png''], 256, 256),
      ([''Icons'', ''AppIcon.iconset'', ''AppIcon_256x256.png''], 256, 256),
      ([''Icons'', ''AppIcon.iconset'', ''AppIcon_256x256@2x.png''], 512, 512),
      ([''Icons'', ''AppIcon.iconset'', ''AppIcon_512x512.png''], 512, 512),
      ([''Icons'', ''AppIcon.iconset'', ''AppIcon_512x512@2x.png''], 1024, 1024),
      ([''Icons'', ''AppIcon_1024.png''], 1024, 1024)]
   \<and> map (\<lambda>(p, w, h). (w, h)) (file_dims (save_iconset img name d)) =
       map (\<lambda>(n, label). (n, n)) iconset_sizes
   \<and> file_dims (board_ops (fst (wood_texture E s))) =
       [([''BoardStyles'', ''Board_Wood.png''], 1024, 1024),
        ([''BoardStyles'', ''Board_Modern_Light.png''], 1024, 1024),
        ([''BoardStyles'', ''Board_Modern_Dark.png''], 1024, 1024)]
   \<and> file_dims (create_pieces E) =
       concat (map (\<lambda>(dir, sz). concat (map (\<lambda>style. concat (map (\<lambda>name.
         [([''PieceStyles'', style, dir, ''Red_'' @ name @ ''.png''], sz, sz),
          ([''PieceStyles'', style, dir, ''Black_'' @ name @ ''.png''], sz, sz)])
         [''0'', ''1'', ''2'', ''3'', ''4'', ''5'', ''6'']))
         [''Traditional'', ''Modern'']))
         [(''64'', 64), (''128'', 128), (''256'', 256)])
   \<and> file_dims create_toolbar_icons =
       concat (map (\<lambda>name.
         [([''Toolbar'', name @ ''_18x18.png''], 18, 18),
          ([''Toolbar'', name @ ''_24x24.png''], 24, 24),
          ([''Toolbar'', name @ ''_18x18@2x.png''], 36, 36)])
         [''NewGame'', ''Undo'', ''Hint'', ''Settings'', ''Analysis''])
   \<and> file_dims create_ui_elements =
       [([''UI'', ''Selection_Highlight.png''], 256, 256),
        ([''UI'', ''Move_Indicator.png''], 256, 256),
        ([''UI'', ''Check_Warning.png''], 256, 256),
        ([''UI'', ''Last_Move_Indicator.png''], 256, 256)]
   \<and> file_dims (create_launch_screen E) =
       [([''LaunchScreen'', ''LaunchScreen_800x600.png''], 800, 600),
        ([''LaunchScreen'', ''LaunchScreen_1024x768.png''], 1024, 768),
        ([''LaunchScreen'', ''LaunchScreen_1200x800.png''], 1200, 800),
        ([''LaunchScreen'', ''LaunchScreen_1600x1000.png''], 1600, 1000)]
   \<and> list_all (\<lambda>(p, w, h). 0 < w \<and> 0 < h)
         (file_dims (routine_ops E s r))"
proof -
  have ico: "map (\<lambda>(p, w, h). (w, h)) (file_dims (save_iconset img name d)) =
       map (\<lambda>(n, label). (n, n)) iconset_sizes"
    by (simp add: file_dims_save_iconset iconset_sizes_def)
  have pos: "list_all (\<lambda>(p, w, h). 0 < w \<and> 0 < h) (file_dims (routine_ops E s r))"
  proof (cases r)
    case App_icon
    then show ?thesis by (simp add: file_dims_app_icon)
  next
    case Board_styles
    then show ?thesis by (simp add: file_dims_board)
  next
    case Pieces
    then show ?thesis by (simp add: file_dims_pieces)
  next
    case Toolbar_icons
    then show ?thesis by (simp add: file_dims_toolbar)
  next
    case Ui_elements
    then show ?thesis by (simp add: file_dims_ui)
  next
    case Launch_screen
    then show ?thesis by (simp add: file_dims_launch)
  qed
  from ico pos file_dims_app_icon [of E] file_dims_board [of E s] file_dims_pieces [of E]
    file_dims_toolbar file_dims_ui file_dims_launch [of E]
  show ?thesis by blast
qed

subsection \<open>The top-level routines as sequences of calls\<close>

lemma wood_texture_image: "fst (wood_texture E s1) = fst (wood_texture E s2)"
  by (simp add: wood_texture_def Let_def split: prod.splits)

lemma wood_texture_state:
  "dirs (snd (wood_texture E s)) = dirs s" "files (snd (wood_texture E s)) = files s"
  by (simp_all add: wood_texture_def Let_def split: prod.splits)

lemma routine_ops_indep: "routine_ops E s1 r = routine_ops E s2 r"
  by (cases r) (simp_all add: wood_texture_image [of E s1 s2])

lemma create_board_styles_exec:
  "create_board_styles E s = exec_ops E (routine_ops E s Board_styles) (snd (wood_texture E s))"
  by (simp add: create_board_styles_def split: prod.splits)

lemma run_routine_None_iff:
  "fst (run_routine E r s) = None \<longleftrightarrow> ops_ok E (dirs s) (routine_ops E s r)"
  by (cases r) (simp_all add: exec_ops_None_iff create_board_styles_exec wood_texture_state)

lemma run_routine_files:
  "files (snd (run_routine E r s)) = files s @ written E (dirs s) (routine_ops E s r)"
  by (cases r) (simp_all add: exec_ops_files create_board_styles_exec wood_texture_state)

lemma run_routine_dirs_lower: "dirs s \<subseteq> dirs (snd (run_routine E r s))"
proof (cases r)
  case Board_styles
  then show ?thesis
    using exec_ops_dirs_lower [of "snd (wood_texture E s)" E "routine_ops E s Board_styles"]
    by (simp add: create_board_styles_exec wood_texture_state)
qed (simp_all add: exec_ops_dirs_lower)

lemma run_routine_dirs_upper:
  "dirs (snd (run_routine E r s)) \<subseteq> dirs s \<union> made (routine_ops E s r)"
proof (cases r)
  case Board_styles
  then show ?thesis
    using exec_ops_dirs_upper [of E "routine_ops E s Board_styles" "snd (wood_texture E s)"]
    by (simp add: create_board_styles_exec wood_texture_state)
qed (simp_all add: exec_ops_dirs_upper)

lemma run_routine_ok:
  assumes "ops_ok E (dirs s) (routine_ops E s r)"
  shows "fst (run_routine E r s) = None"
    and "dirs (snd (run_routine E r s)) = dirs s \<union> made (routine_ops E s r)"
    and "files (snd (run_routine E r s)) = files s @ saved (routine_ops E s r)"
proof -
  show "fst (run_routine E r s) = None"
    using assms by (simp add: run_routine_None_iff)
  show "dirs (snd (run_routine E r s)) = dirs s \<union> made (routine_ops E s r)"
  proof (cases r)
    case Board_styles
    with assms have "ops_ok E (dirs (snd (wood_texture E s))) (routine_ops E s Board_styles)"
      by (simp add: wood_texture_state)
    from exec_ops_ok [OF this] Board_styles show ?thesis
      by (simp add: create_board_styles_exec wood_texture_state)
  qed (use assms in \<open>simp_all add: exec_ops_ok\<close>)
  show "files (snd (run_routine E r s)) = files s @ saved (routine_ops E s r)"
  proof (cases r)
    case Board_styles
    with assms have "ops_ok E (dirs (snd (wood_texture E s))) (routine_ops E s Board_styles)"
      by (simp add: wood_texture_state)
    from exec_ops_ok [OF this] Board_styles show ?thesis
      by (simp add: create_board_styles_exec wood_texture_state)
  qed (use assms in \<open>simp_all add: exec_ops_ok\<close>)
qed

lemma made_board: "made (board_ops img) = {}"
  by (simp add: board_ops_def)

lemma made_ui: "made create_ui_elements = {[''UI'']}"
  by (simp add: create_ui_elements_def ancestors_simps)

lemma made_launch: "made (create_launch_screen E) = {[''LaunchScreen'']}"
  by (simp add: launch_unfold ancestors_simps)

lemma board_dir_not_made: "[''BoardStyles''] \<notin> made (routine_ops E s r)"
  by (cases r) (simp_all add: made_app_icon made_board made_pieces made_toolbar made_ui made_launch)

lemma run_routine_board_dir:
  "[''BoardStyles''] \<in> dirs (snd (run_routine E r s)) \<longleftrightarrow> [''BoardStyles''] \<in> dirs s"
  using run_routine_dirs_lower [of s E r] run_routine_dirs_upper [of E r s]
    board_dir_not_made [of E s r]
  by blast

lemma well_placed_routine:
  "well_placed D (routine_ops E s r) \<longleftrightarrow> (r = Board_styles \<longrightarrow> [''BoardStyles''] \<in> D)"
  by (cases r)
    (simp_all add: well_placed_app_icon well_placed_board well_placed_pieces well_placed_toolbar
      well_placed_ui well_placed_launch)

lemma ops_ok_routine:
  "ops_ok E D (routine_ops E s r) \<longleftrightarrow>
     (r = Board_styles \<longrightarrow> [''BoardStyles''] \<in> D) \<and> disk_accepts E (routine_ops E s r)"
  by (simp add: ops_ok_iff well_placed_routine)

lemma written_board:
  "([''BoardStyles''] \<in> D1 \<longleftrightarrow> [''BoardStyles''] \<in> D2) \<Longrightarrow>
   written E D1 (board_ops img) = written E D2 (board_ops img)"
  by (simp add: board_ops_def dir_exists_def)

lemma written_routine:
  assumes "[''BoardStyles''] \<in> D1 \<longleftrightarrow> [''BoardStyles''] \<in> D2"
  shows "written E D1 (routine_ops E s1 r) = written E D2 (routine_ops E s2 r)"
proof (cases "r = Board_styles")
  case True
  with assms show ?thesis
    using written_board [of D1 D2 E "fst (wood_texture E s1)"]
    by (simp add: wood_texture_image [of E s2 s1])
next
  case False
  then have "well_placed D1 (routine_ops E s1 r)" "well_placed D2 (routine_ops E s1 r)"
    by (simp_all add: well_placed_routine)
  then have "written E D1 (routine_ops E s1 r) = written E D2 (routine_ops E s1 r)"
    by (rule written_well_placed)
  then show ?thesis by (simp add: routine_ops_indep [of E s2 r s1])
qed

lemma run_routines_Cons_None:
  "fst (run_routine E r s) = None \<Longrightarrow>
   run_routines E (r # rs) s = run_routines E rs (snd (run_routine E r s))"
  by (cases "run_routine E r s") simp

lemma run_routines_Cons_Some:
  "fst (run_routine E r s) = Some e \<Longrightarrow>
   run_routines E (r # rs) s = (Some e, snd (run_routine E r s))"
  by (cases "run_routine E r s") simp

lemma run_routines_board_dir:
  "[''BoardStyles''] \<in> dirs (snd (run_routines E rs s)) \<longleftrightarrow> [''BoardStyles''] \<in> dirs s"
proof (induction rs arbitrary: s)
  case Nil
  then show ?case by simp
next
  case (Cons r rs)
  show ?case
  proof (cases "fst (run_routine E r s)")
    case None
    then show ?thesis
      using Cons.IH [of "snd (run_routine E r s)"]
      by (simp only: run_routines_Cons_None run_routine_board_dir)
  next
    case (Some e)
    then show ?thesis
      by (simp only: run_routines_Cons_Some snd_conv run_routine_board_dir)
  qed
qed

lemma routine_output_written:
  "routine_output E r s = written E (dirs s) (routine_ops E s r)"
  by (simp add: routine_output_def run_routine_files)

subsection \<open>The wood texture is reproducible\<close>

lemma run_example_board:
  assumes "[''BoardStyles''] \<in> dirs s"
  shows "fst (create_board_styles example_env s) = None"
proof -
  have "ops_ok example_env (dirs s) (routine_ops example_env s Board_styles)"
    using assms by (simp only: ops_ok_routine disk_accepts_example simp_thms)
  then have "fst (run_routine example_env Board_styles s) = None"
    by (simp only: run_routine_None_iff)
  then show ?thesis by simp
qed

text \<open>
  C1. The wood board does not depend on the state a run starts in: the routine replaces
  the state of the generator by the one seeded with 42 before it draws. So two runs of
  \<^verbatim>\<open>create_board_styles\<close> that complete, from any two states (any generator state,
  any earlier files), leave the same image in \<^verbatim>\<open>BoardStyles/Board_Wood.png\<close>, and
  it is the image drawn from the seeded generator.
\<close>

theorem board_wood_reproducible:
  assumes "fst (create_board_styles E s1) = None" and "fst (create_board_styles E s2) = None"
  shows "file_content (snd (create_board_styles E s1)) [''BoardStyles'', ''Board_Wood.png''] =
           file_content (snd (create_board_styles E s2)) [''BoardStyles'', ''Board_Wood.png'']
       \<and> file_content (snd (create_board_styles E s1)) [''BoardStyles'', ''Board_Wood.png''] =
           Some (fst (wood_texture E s1))
       \<and> fst (wood_texture E s1) = fst (wood_texture E s2)
       \<and> rng (snd (create_board_styles E s1)) = rng (snd (create_board_styles E s2))"
proof -
  have content: "file_content (snd (create_board_styles E s)) [''BoardStyles'', ''Board_Wood.png''] =
      Some (fst (wood_texture E s))" if "fst (create_board_styles E s) = None" for s
  proof -
    from that have "fst (run_routine E Board_styles s) = None" by simp
    then have "ops_ok E (dirs s) (routine_ops E s Board_styles)"
      by (simp only: run_routine_None_iff)
    then have "files (snd (run_routine E Board_styles s)) =
        files s @ saved (routine_ops E s Board_styles)"
      by (rule run_routine_ok)
    then show ?thesis
      by (simp add: file_content_def board_ops_def)
  qed
  have img: "fst (wood_texture E s1) = fst (wood_texture E s2)"
    by (rule wood_texture_image)
  have gen: "rng (snd (create_board_styles E s)) = rng (snd (wood_texture E (s\<lparr>rng := rng_seed E 42\<rparr>)))"
    for s
    by (simp add: create_board_styles_exec exec_ops_rng wood_texture_def Let_def split: prod.splits)
  have "rng (snd (wood_texture E (s1\<lparr>rng := rng_seed E 42\<rparr>))) =
        rng (snd (wood_texture E (s2\<lparr>rng := rng_seed E 42\<rparr>)))"
    by (simp add: wood_texture_def Let_def split: prod.splits)
  with gen have rngs: "rng (snd (create_board_styles E s1)) = rng (snd (create_board_styles E s2))"
    by simp
  from content [OF assms(1)] content [OF assms(2)] img rngs show ?thesis by simp
qed

theorem board_wood_reproducible_witness:
  "fst (create_board_styles example_env example_state) = None
   \<and> fst (create_board_styles example_env
        \<lparr>dirs = {[''BoardStyles''], [''UI'']},
         files = [([''BoardStyles'', ''Board_Wood.png''], board_modern_dark)],
         rng = 7\<rparr>) = None
   \<and> file_content (snd (create_board_styles example_env example_state))
        [''BoardStyles'', ''Board_Wood.png''] =
     file_content (snd (create_board_styles example_env
        \<lparr>dirs = {[''BoardStyles''], [''UI'']},
         files = [([''BoardStyles'', ''Board_Wood.png''], board_modern_dark)],
         rng = 7\<rparr>)) [''BoardStyles'', ''Board_Wood.png'']"
proof -
  have h1: "fst (create_board_styles example_env example_state) = None"
    by (rule run_example_board) (simp add: example_state_def)
  have h2: "fst (create_board_styles example_env
        \<lparr>dirs = {[''BoardStyles''], [''UI'']},
         files = [([''BoardStyles'', ''Board_Wood.png''], board_modern_dark)],
         rng = 7\<rparr>) = None"
    by (rule run_example_board) simp
  from board_wood_reproducible [OF h1 h2] h1 h2 show ?thesis by blast
qed

subsection \<open>File-system failures propagate\<close>

lemma exec_ops_append:
  "exec_ops E (cs1 @ cs2) s =
     (case exec_ops E cs1 s of
        (None, s') \<Rightarrow> exec_ops E cs2 s'
      | (Some e, s') \<Rightarrow> (Some e, s'))"
proof (induction cs1 arbitrary: s)
  case Nil
  then show ?case by simp
next
  case (Cons c cs1)
  then show ?case by (simp split: prod.splits option.splits)
qed

lemma exec_ops_stops:
  assumes "ops_ok E (dirs s) cs1"
    and "\<not> dir_exists (dirs s \<union> made cs1) (butlast p) \<or> disk_fails E p"
  shows "exec_ops E (cs1 @ Save p img # cs2) s =
     (Some (if dir_exists (dirs s \<union> made cs1) (butlast p) then Write_error p
            else File_not_found p),
      s\<lparr>dirs := dirs s \<union> made cs1, files := files s @ saved cs1\<rparr>)"
  using assms(2) by (auto simp: exec_ops_append exec_ops_ok [OF assms(1)])

lemma run_routine_stops:
  assumes "routine_ops E s r = cs1 @ Save p img # cs2"
    and "ops_ok E (dirs s) cs1"
    and "\<not> dir_exists (dirs s \<union> made cs1) (butlast p) \<or> disk_fails E p"
  shows "fst (run_routine E r s) =
           Some (if dir_exists (dirs s \<union> made cs1) (butlast p) then Write_error p
                 else File_not_found p)
       \<and> files (snd (run_routine E r s)) = files s @ saved cs1
       \<and> dirs (snd (run_routine E r s)) = dirs s \<union> made cs1"
proof (cases "r = Board_styles")
  case True
  let ?s = "snd (wood_texture E s)"
  have ok: "ops_ok E (dirs ?s) cs1"
    and bad: "\<not> dir_exists (dirs ?s \<union> made cs1) (butlast p) \<or> disk_fails E p"
    using assms(2,3) by (simp_all only: wood_texture_state)
  have "run_routine E r s = exec_ops E (cs1 @ Save p img # cs2) ?s"
    using True assms(1) by (simp add: create_board_styles_exec)
  then show ?thesis
    by (simp only: exec_ops_stops [OF ok bad]) (simp add: wood_texture_state)
next
  case False
  then have "run_routine E r s = exec_ops E (cs1 @ Save p img # cs2) s"
    using assms(1) by (cases r) simp_all
  then show ?thesis
    by (simp only: exec_ops_stops [OF assms(2,3)]) simp
qed

lemma run_routines_append:
  "run_routines E (pre @ post) s =
     (case run_routines E pre s of
        (None, s') \<Rightarrow> run_routines E post s'
      | (Some e, s') \<Rightarrow> (Some e, s'))"
proof (induction pre arbitrary: s)
  case Nil
  then show ?case by simp
next
  case (Cons r pre)
  then show ?case by (simp split: prod.splits option.splits)
qed

lemma board_without_directory:
  assumes "[''BoardStyles''] \<notin> dirs s"
  shows "create_board_styles E s =
     (Some (File_not_found [''BoardStyles'', ''Board_Wood.png'']), snd (wood_texture E s))"
  using assms
  by (simp add: create_board_styles_exec board_ops_def dir_exists_def wood_texture_state)

lemma board_dirs_unchanged: "dirs (snd (create_board_styles E s)) = dirs s"
  using run_routine_dirs_lower [of s E Board_styles] run_routine_dirs_upper [of E Board_styles s]
  by (simp add: made_board)

lemma starts_with_makedirs:
  "r \<noteq> Board_styles \<Longrightarrow> \<exists>d. hd (routine_ops E s r) = Makedirs d"
  by (cases r)
    (simp_all add: app_icon_unfold save_iconset_def pieces_unfold create_toolbar_icons_def
      create_ui_elements_def create_launch_screen_def)

lemma run_prefix_raises:
  assumes "fst (run_routines E pre s) = None"
    and "fst (run_routine E r (snd (run_routines E pre s))) = Some e"
  shows "run_routines E (pre @ r # post) s =
     (Some e, snd (run_routine E r (snd (run_routines E pre s))))"
proof -
  obtain s' where pre: "run_routines E pre s = (None, s')"
    using assms(1) by (cases "run_routines E pre s") simp
  with assms(2) have "fst (run_routine E r s') = Some e" by simp
  then have "run_routines E (r # post) s' = (Some e, snd (run_routine E r s'))"
    by (rule run_routines_Cons_Some)
  with pre show ?thesis by (simp add: run_routines_append)
qed

lemma main_without_board_directory:
  assumes "[''BoardStyles''] \<notin> dirs s" and "disk_accepts E (create_app_icon E)"
  shows "fst (main E s) = Some (File_not_found [''BoardStyles'', ''Board_Wood.png''])
       \<and> files (snd (main E s)) = files s @ saved (create_app_icon E)
       \<and> dirs (snd (main E s)) = dirs s \<union> {[''Icons''], [''Icons'', ''AppIcon.iconset'']}"
proof -
  let ?s1 = "snd (run_routine E App_icon s)"
  have ok: "ops_ok E (dirs s) (routine_ops E s App_icon)"
    using assms(2) ops_ok_routine [of E "dirs s" s App_icon] by simp
  then have icon: "fst (run_routine E App_icon s) = None"
    by (simp only: run_routine_None_iff)
  from run_routine_ok [OF ok]
  have d1: "dirs ?s1 = dirs s \<union> {[''Icons''], [''Icons'', ''AppIcon.iconset'']}"
    and f1: "files ?s1 = files s @ saved (create_app_icon E)"
    by (simp_all add: made_app_icon)
  have pre: "fst (run_routines E [App_icon] s) = None"
    by (simp only: run_routines_Cons_None [OF icon] run_routines.simps(1) fst_conv)
  have st: "snd (run_routines E [App_icon] s) = ?s1"
    by (simp only: run_routines_Cons_None [OF icon] run_routines.simps(1) snd_conv)
  have nb: "[''BoardStyles''] \<notin> dirs ?s1"
    using assms(1) by (simp only: run_routine_board_dir simp_thms)
  then have board: "create_board_styles E ?s1 =
      (Some (File_not_found [''BoardStyles'', ''Board_Wood.png'']), snd (wood_texture E ?s1))"
    by (rule board_without_directory)
  then have "fst (run_routine E Board_styles (snd (run_routines E [App_icon] s))) =
      Some (File_not_found [''BoardStyles'', ''Board_Wood.png''])"
    by (simp only: st run_routine.simps fst_conv)
  from run_prefix_raises [OF pre this,
      of "[Pieces, Toolbar_icons, Ui_elements, Launch_screen]"]
  have "main E s = (Some (File_not_found [''BoardStyles'', ''Board_Wood.png'']),
      snd (run_routine E Board_styles ?s1))"
    by (simp only: main_def main_order_def append.simps st)
  moreover have "snd (run_routine E Board_styles ?s1) = snd (wood_texture E ?s1)"
    using board by (simp only: run_routine.simps(2) snd_conv)
  ultimately have "main E s = (Some (File_not_found [''BoardStyles'', ''Board_Wood.png'']),
      snd (wood_texture E ?s1))"
    by (simp only:)
  then show ?thesis
    by (simp only: fst_conv snd_conv wood_texture_state d1 f1 simp_thms)
qed

text \<open>
  C7. No routine handles a failure of the file system: the run stops where the failure
  occurs. \<^verbatim>\<open>create_board_styles\<close> issues no \<^verbatim>\<open>makedirs\<close> and leaves the set
  of directories as it found it, while every other routine starts with a
  \<^verbatim>\<open>makedirs\<close> and saves only into directories it has created; so when
  \<^verbatim>\<open>BoardStyles\<close> does not exist the first save of the board routine raises file
  not found, which is the result of the routine, and the routine has written no file.
  In any routine, when the calls before a save have succeeded and that save fails (its
  directory is missing, or the disk refuses the write), the result of the routine is the
  exception of that save, and the routine leaves exactly the files and directories of
  the calls before it: nothing after the failing save is executed. A routine that runs to
  its end has had every one of its saves accepted. In a run of several routines the
  result of the first routine that raises, exception and state, is the result of the
  run: the routines after it are not called. So when \<^verbatim>\<open>BoardStyles\<close> does not
  exist and the icon files are accepted, \<^verbatim>\<open>main\<close> ends with the
  missing-directory exception of the board routine, having written the files of the
  application icon and no other.
\<close>

theorem filesystem_failures_propagate:
  "([''BoardStyles''] \<notin> dirs s \<longrightarrow>
      fst (create_board_styles E s) = Some (File_not_found [''BoardStyles'', ''Board_Wood.png''])
      \<and> files (snd (create_board_styles E s)) = files s)
   \<and> dirs (snd (create_board_styles E s)) = dirs s
   \<and> Makedirs d \<notin> set (routine_ops E s Board_styles)
   \<and> (r \<noteq> Board_styles \<longrightarrow>
        (\<exists>d'. hd (routine_ops E s r) = Makedirs d') \<and> well_placed {} (routine_ops E s r))
   \<and> (routine_ops E s r = cs1 @ Save p img # cs2 \<and> ops_ok E (dirs s) cs1 \<and>
        (\<not> dir_exists (dirs s \<union> made cs1) (butlast p) \<or> disk_fails E p) \<longrightarrow>
        fst (run_routine E r s) =
          Some (if dir_exists (dirs s \<union> made cs1) (butlast p) then Write_error p
                else File_not_found p)
        \<and> files (snd (run_routine E r s)) = files s @ saved cs1
        \<and> dirs (snd (run_routine E r s)) = dirs s \<union> made cs1)
   \<and> (fst (run_routine E r s) = None \<longrightarrow> disk_accepts E (routine_ops E s r))
   \<and> (fst (run_routines E pre s) = None \<and>
        fst (run_routine E r (snd (run_routines E pre s))) = Some e \<longrightarrow>
        run_routines E (pre @ r # post) s =
          (Some e, snd (run_routine E r (snd (run_routines E pre s)))))
   \<and> ([''BoardStyles''] \<notin> dirs s \<and> disk_accepts E (create_app_icon E) \<longrightarrow>
        fst (main E s) = Some (File_not_found [''BoardStyles'', ''Board_Wood.png''])
        \<and> files (snd (main E s)) = files s @ saved (create_app_icon E)
        \<and> dirs (snd (main E s)) = dirs s \<union> {[''Icons''], [''Icons'', ''AppIcon.iconset'']})"
proof -
  have a: "[''BoardStyles''] \<notin> dirs s \<longrightarrow>
      fst (create_board_styles E s) = Some (File_not_found [''BoardStyles'', ''Board_Wood.png''])
      \<and> files (snd (create_board_styles E s)) = files s"
    by (simp add: board_without_directory wood_texture_state)
  have b: "Makedirs d \<notin> set (routine_ops E s Board_styles)"
    by (simp add: board_ops_def)
  have c: "r \<noteq> Board_styles \<longrightarrow>
        (\<exists>d'. hd (routine_ops E s r) = Makedirs d') \<and> well_placed {} (routine_ops E s r)"
    using starts_with_makedirs [of r E s] by (simp add: well_placed_routine)
  have d: "fst (run_routine E r s) = None \<longrightarrow> disk_accepts E (routine_ops E s r)"
    by (simp add: run_routine_None_iff ops_ok_iff)
  have e: "routine_ops E s r = cs1 @ Save p img # cs2 \<and> ops_ok E (dirs s) cs1 \<and>
        (\<not> dir_exists (dirs s \<union> made cs1) (butlast p) \<or> disk_fails E p) \<longrightarrow>
        fst (run_routine E r s) =
          Some (if dir_exists (dirs s \<union> made cs1) (butlast p) then Write_error p
                else File_not_found p)
        \<and> files (snd (run_routine E r s)) = files s @ saved cs1
        \<and> dirs (snd (run_routine E r s)) = dirs s \<union> made cs1"
    by (intro impI, elim conjE, rule run_routine_stops; assumption)
  have f: "fst (run_routines E pre s) = None \<and>
        fst (run_routine E r (snd (run_routines E pre s))) = Some e \<longrightarrow>
        run_routines E (pre @ r # post) s =
          (Some e, snd (run_routine E r (snd (run_routines E pre s))))"
    by (intro impI, elim conjE, rule run_prefix_raises; assumption)
  have g: "[''BoardStyles''] \<notin> dirs s \<and> disk_accepts E (create_app_icon E) \<longrightarrow>
        fst (main E s) = Some (File_not_found [''BoardStyles'', ''Board_Wood.png''])
        \<and> files (snd (main E s)) = files s @ saved (create_app_icon E)
        \<and> dirs (snd (main E s)) = dirs s \<union> {[''Icons''], [''Icons'', ''AppIcon.iconset'']}"
    by (intro impI, elim conjE, rule main_without_board_directory; assumption)
  from a board_dirs_unchanged [of E s] b c e d f g show ?thesis
    by (intro conjI)
qed

theorem filesystem_failures_propagate_witness:
  "[''BoardStyles''] \<notin> dirs (example_state\<lparr>dirs := {}\<rparr>)
   \<and> disk_accepts example_env (create_app_icon example_env)
   \<and> fst (create_board_styles example_env (example_state\<lparr>dirs := {}\<rparr>)) =
       Some (File_not_found [''BoardStyles'', ''Board_Wood.png''])
   \<and> fst (main example_env (example_state\<lparr>dirs := {}\<rparr>)) =
       Some (File_not_found [''BoardStyles'', ''Board_Wood.png''])
   \<and> map fst (files (snd (main example_env (example_state\<lparr>dirs := {}\<rparr>)))) =
       [[''Icons'', ''AppIcon.iconset'', ''AppIcon_16x16.png''],
        [''Icons'', ''AppIcon.iconset'', ''AppIcon_16x16@2x.png''],
        [''Icons'', ''AppIcon.iconset'', ''AppIcon_32x32.png''],
        [''Icons'', ''AppIcon.iconset'', ''AppIcon_32x32@2x.png''],
        [''Icons'', ''AppIcon.iconset'', ''AppIcon_128x128.png''],
        [''Icons'', ''AppIcon.iconset'', ''AppIcon_128x128@2x.png''],
        [''Icons'', ''AppIcon.iconset'', ''AppIcon_256x256.png''],
        [''Icons'', ''AppIcon.iconset'', ''AppIcon_256x256@2x.png''],
        [''Icons'', ''AppIcon.iconset'', ''AppIcon_512x512.png''],
        [''Icons'', ''AppIcon.iconset'', ''AppIcon_512x512@2x.png''],
        [''Icons'', ''AppIcon_1024.png'']]
   \<and> dirs (snd (main example_env (example_state\<lparr>dirs := {}\<rparr>))) =
       {[''Icons''], [''Icons'', ''AppIcon.iconset'']}"
proof -
  let ?s = "example_state\<lparr>dirs := {}\<rparr>"
  have h1: "[''BoardStyles''] \<notin> dirs ?s" by simp
  have h2: "disk_accepts example_env (create_app_icon example_env)"
    by (rule disk_accepts_example)
  have paths: "map fst (saved (create_app_icon example_env)) =
      map fst (file_dims (create_app_icon example_env))"
    by (simp add: file_dims_def case_prod_unfold)
  note all = filesystem_failures_propagate [of ?s example_env]
  have board: "fst (create_board_styles example_env ?s) =
       Some (File_not_found [''BoardStyles'', ''Board_Wood.png''])"
    by (rule all [THEN conjunct1, THEN mp, OF h1, THEN conjunct1])
  have m: "fst (main example_env ?s) =
        Some (File_not_found [''BoardStyles'', ''Board_Wood.png''])
      \<and> files (snd (main example_env ?s)) = files ?s @ saved (create_app_icon example_env)
      \<and> dirs (snd (main example_env ?s)) =
          dirs ?s \<union> {[''Icons''], [''Icons'', ''AppIcon.iconset'']}"
    by (rule all [THEN conjunct2, THEN conjunct2, THEN conjunct2, THEN conjunct2,
          THEN conjunct2, THEN conjunct2, THEN conjunct2, THEN mp, OF conjI [OF h1 h2]])
  from m have fs: "map fst (files (snd (main example_env ?s))) =
       [[''Icons'', ''AppIcon.iconset'', ''AppIcon_16x16.png''],
        [''Icons'', ''AppIcon.iconset'', ''AppIcon_16x16@2x.png''],
        [''Icons'', ''AppIcon.iconset'', ''AppIcon_32x32.png''],
        [''Icons'', ''AppIcon.iconset'', ''AppIcon_32x32@2x.png''],
        [''Icons'', ''AppIcon.iconset'', ''AppIcon_128x128.png''],
        [''Icons'', ''AppIcon.iconset'', ''AppIcon_128x128@2x.png''],
        [''Icons'', ''AppIcon.iconset'', ''AppIcon_256x256.png''],
        [''Icons'', ''AppIcon.iconset'', ''AppIcon_256x256@2x.png''],
        [''Icons'', ''AppIcon.iconset'', ''AppIcon_512x512.png''],
        [''Icons'', ''AppIcon.iconset'', ''AppIcon_512x512@2x.png''],
        [''Icons'', ''AppIcon_1024.png'']]"
    by (simp add: example_state_def paths file_dims_app_icon)
  from m have ds: "dirs (snd (main example_env ?s)) =
       {[''Icons''], [''Icons'', ''AppIcon.iconset'']}"
    by simp
  from h1 h2 board m fs ds show ?thesis by (intro conjI) simp_all
qed

subsection \<open>The order of the routines\<close>

lemma ops_ok_transfer:
  "([''BoardStyles''] \<in> D1 \<longleftrightarrow> [''BoardStyles''] \<in> D2) \<Longrightarrow>
   ops_ok E D1 (routine_ops E s1 r) = ops_ok E D2 (routine_ops E s2 r)"
  by (simp add: ops_ok_routine routine_ops_indep [of E s1 r s2])

lemma run_routines_None_iff:
  "fst (run_routines E rs s) = None \<longleftrightarrow>
     list_all (\<lambda>r. ops_ok E (dirs s) (routine_ops E s r)) rs"
proof (induction rs arbitrary: s)
  case Nil
  then show ?case by simp
next
  case (Cons r rs)
  let ?s' = "snd (run_routine E r s)"
  have same: "ops_ok E (dirs ?s') (routine_ops E ?s' q) = ops_ok E (dirs s) (routine_ops E s q)"
    for q
    by (rule ops_ok_transfer) (rule run_routine_board_dir)
  show ?case
  proof (cases "fst (run_routine E r s)")
    case None
    then have "ops_ok E (dirs s) (routine_ops E s r)"
      by (simp only: run_routine_None_iff)
    moreover have "fst (run_routines E (r # rs) s) = None \<longleftrightarrow>
        list_all (\<lambda>q. ops_ok E (dirs ?s') (routine_ops E ?s' q)) rs"
      by (simp only: run_routines_Cons_None [OF None] Cons.IH)
    ultimately show ?thesis by (simp only: same list.pred_inject simp_thms)
  next
    case (Some e)
    then have "\<not> ops_ok E (dirs s) (routine_ops E s r)"
      using run_routine_None_iff [of E r s] by simp
    moreover have "fst (run_routines E (r # rs) s) \<noteq> None"
      by (simp only: run_routines_Cons_Some [OF Some] fst_conv) simp
    ultimately show ?thesis by (simp only: list.pred_inject simp_thms)
  qed
qed

lemma run_routines_ok:
  assumes "fst (run_routines E rs s) = None"
  shows "files (snd (run_routines E rs s)) =
           files s @ concat (map (\<lambda>r. saved (routine_ops E s r)) rs)
       \<and> dirs (snd (run_routines E rs s)) =
           dirs s \<union> \<Union> (set (map (\<lambda>r. made (routine_ops E s r)) rs))"
  using assms
proof (induction rs arbitrary: s)
  case Nil
  then show ?case by simp
next
  case (Cons r rs)
  let ?s' = "snd (run_routine E r s)"
  from Cons.prems have ok: "ops_ok E (dirs s) (routine_ops E s r)"
    by (simp only: run_routines_None_iff list.pred_inject)
  then have r1: "fst (run_routine E r s) = None"
    and r2: "dirs ?s' = dirs s \<union> made (routine_ops E s r)"
    and r3: "files ?s' = files s @ saved (routine_ops E s r)"
    by (rule run_routine_ok)+
  have step: "run_routines E (r # rs) s = run_routines E rs ?s'"
    using r1 by (rule run_routines_Cons_None)
  with Cons.prems have "fst (run_routines E rs ?s') = None" by (simp only:)
  then have ih: "files (snd (run_routines E rs ?s')) =
           files ?s' @ concat (map (\<lambda>q. saved (routine_ops E ?s' q)) rs)
       \<and> dirs (snd (run_routines E rs ?s')) =
           dirs ?s' \<union> \<Union> (set (map (\<lambda>q. made (routine_ops E ?s' q)) rs))"
    by (rule Cons.IH)
  have indep: "routine_ops E ?s' q = routine_ops E s q" for q
    by (rule routine_ops_indep)
  from ih show ?case
    by (simp only: step indep r2 r3) auto
qed

lemma mset_concat_map: "mset (concat (map f xs)) = (\<Sum>x\<in>#mset xs. mset (f x))"
  by (induction xs) simp_all

lemma top_directory:
  assumes "p \<in> set (map fst (saved (routine_ops E s r)))"
  shows "hd p = (case r of App_icon \<Rightarrow> ''Icons'' | Board_styles \<Rightarrow> ''BoardStyles''
      | Pieces \<Rightarrow> ''PieceStyles'' | Toolbar_icons \<Rightarrow> ''Toolbar'' | Ui_elements \<Rightarrow> ''UI''
      | Launch_screen \<Rightarrow> ''LaunchScreen'')"
proof -
  have paths: "map fst (saved cs) = map fst (file_dims cs)" for cs
    by (simp add: file_dims_def case_prod_unfold)
  show ?thesis
  proof (cases r)
    case App_icon
    with assms show ?thesis
      unfolding paths by (auto simp: file_dims_app_icon)
  next
    case Board_styles
    with assms show ?thesis
      unfolding paths by (auto simp: file_dims_board)
  next
    case Pieces
    with assms show ?thesis
      by (auto simp: paths_pieces)
  next
    case Toolbar_icons
    with assms show ?thesis
      unfolding paths by (auto simp: file_dims_toolbar)
  next
    case Ui_elements
    with assms show ?thesis
      unfolding paths by (auto simp: file_dims_ui)
  next
    case Launch_screen
    with assms show ?thesis
      unfolding paths by (auto simp: file_dims_launch)
  qed
qed

lemma distinct_routine_paths: "distinct (map fst (saved (routine_ops E s r)))"
proof -
  have paths: "map fst (saved cs) = map fst (file_dims cs)" for cs
    by (simp add: file_dims_def case_prod_unfold)
  show ?thesis
  proof (cases r)
    case App_icon
    then show ?thesis unfolding paths by (simp add: file_dims_app_icon)
  next
    case Board_styles
    then show ?thesis unfolding paths by (simp add: file_dims_board)
  next
    case Pieces
    then show ?thesis by (simp add: distinct_pieces)
  next
    case Toolbar_icons
    then show ?thesis unfolding paths by (simp add: file_dims_toolbar)
  next
    case Ui_elements
    then show ?thesis unfolding paths by (simp add: file_dims_ui)
  next
    case Launch_screen
    then show ?thesis unfolding paths by (simp add: file_dims_launch)
  qed
qed

lemma disjoint_routine_paths:
  assumes "r1 \<noteq> r2"
  shows "set (map fst (saved (routine_ops E s r1))) \<inter> set (map fst (saved (routine_ops E s r2))) = {}"
proof (rule ccontr)
  assume "\<not> ?thesis"
  then obtain p where p1: "p \<in> set (map fst (saved (routine_ops E s r1)))"
    and p2: "p \<in> set (map fst (saved (routine_ops E s r2)))"
    by blast
  from top_directory [OF p1] top_directory [OF p2] assms show False
    by (cases r1; cases r2) simp_all
qed

lemma distinct_all_paths:
  assumes "distinct rs"
  shows "distinct (map fst (concat (map (\<lambda>r. saved (routine_ops E s r)) rs)))"
  using assms
proof (induction rs)
  case Nil
  then show ?case by simp
next
  case (Cons r rs)
  have "set (map fst (saved (routine_ops E s r))) \<inter>
        set (map fst (concat (map (\<lambda>q. saved (routine_ops E s q)) rs))) = {}"
  proof -
    have "set (map fst (saved (routine_ops E s r))) \<inter>
          set (map fst (saved (routine_ops E s q))) = {}" if "q \<in> set rs" for q
      using that Cons.prems by (intro disjoint_routine_paths) auto
    then show ?thesis by (auto simp: map_concat)
  qed
  with Cons show ?case
    by (simp add: distinct_routine_paths)
qed

lemma main_example_completes: "fst (main example_env example_state) = None"
  unfolding main_def run_routines_None_iff
  by (simp add: main_order_def ops_ok_routine disk_accepts_example example_state_def)

text \<open>
  C8. Let \<open>rs\<close> be the six routines in any order. Whatever a routine produces when it
  is called (the files it adds, with their images) is the same in the run of \<open>rs\<close> as in
  the run of \<^verbatim>\<open>main\<close>: it does not depend on the state the routines before it
  leave, since the only state a routine reads, the random generator, is seeded by the
  board routine before it is used. And when \<^verbatim>\<open>main\<close> runs to its end, so does the
  run of \<open>rs\<close>, with the same files written, the same content at every path and the
  same directories.
\<close>

theorem ordering_is_cosmetic:
  assumes "mset rs = mset main_order"
  shows "(\<forall>r. routine_output E r (state_before E rs r s) =
              routine_output E r (state_before E main_order r s))
       \<and> (fst (main E s) = None \<longrightarrow>
            fst (run_routines E rs s) = None
          \<and> mset (files (snd (run_routines E rs s))) = mset (files (snd (main E s)))
          \<and> (\<forall>p. file_content (snd (run_routines E rs s)) p = file_content (snd (main E s)) p)
          \<and> dirs (snd (run_routines E rs s)) = dirs (snd (main E s)))"
proof -
  have part1: "routine_output E r (state_before E rs r s) =
               routine_output E r (state_before E main_order r s)" for r
    unfolding routine_output_written state_before_def
    by (rule written_routine) (simp only: run_routines_board_dir)
  have part2: "fst (run_routines E rs s) = None
          \<and> mset (files (snd (run_routines E rs s))) = mset (files (snd (main E s)))
          \<and> (\<forall>p. file_content (snd (run_routines E rs s)) p = file_content (snd (main E s)) p)
          \<and> dirs (snd (run_routines E rs s)) = dirs (snd (main E s))"
    if fin: "fst (main E s) = None"
  proof -
    let ?out = "\<lambda>qs. concat (map (\<lambda>r. saved (routine_ops E s r)) qs)"
    from assms have sets: "set rs = set main_order" by (rule mset_eq_setD)
    from fin have m: "fst (run_routines E main_order s) = None" by (simp only: main_def)
    then have "list_all (\<lambda>r. ops_ok E (dirs s) (routine_ops E s r)) main_order"
      by (simp only: run_routines_None_iff)
    with sets have "list_all (\<lambda>r. ops_ok E (dirs s) (routine_ops E s r)) rs"
      by (simp only: list_all_iff)
    then have p: "fst (run_routines E rs s) = None"
      by (simp only: run_routines_None_iff)
    from run_routines_ok [OF p]
    have fp: "files (snd (run_routines E rs s)) = files s @ ?out rs"
      and dp: "dirs (snd (run_routines E rs s)) =
               dirs s \<union> \<Union> (set (map (\<lambda>r. made (routine_ops E s r)) rs))"
      by simp_all
    from run_routines_ok [OF m]
    have fm: "files (snd (main E s)) = files s @ ?out main_order"
      and dm: "dirs (snd (main E s)) =
               dirs s \<union> \<Union> (set (map (\<lambda>r. made (routine_ops E s r)) main_order))"
      by (simp_all only: main_def)
    have outs: "mset (?out rs) = mset (?out main_order)"
      by (simp only: mset_concat_map assms)
    have files_eq: "mset (files (snd (run_routines E rs s))) = mset (files (snd (main E s)))"
      by (simp only: fp fm mset_append outs)
    have dirs_eq: "dirs (snd (run_routines E rs s)) = dirs (snd (main E s))"
      by (simp only: dp dm set_map sets)
    have "distinct main_order" by (simp add: main_order_def)
    moreover from assms have "distinct rs = distinct main_order"
      by (rule mset_eq_imp_distinct_iff)
    ultimately have d1: "distinct (map fst (?out rs))" and d2: "distinct (map fst (?out main_order))"
      by (simp_all add: distinct_all_paths)
    from outs have "set (?out rs) = set (?out main_order)" by (rule mset_eq_setD)
    with d1 d2 have "map_of (rev (?out rs)) = map_of (rev (?out main_order))"
      by (subst map_of_inject_set) (simp_all add: rev_map [symmetric])
    then have content: "file_content (snd (run_routines E rs s)) p = file_content (snd (main E s)) p"
      for p
      by (simp add: file_content_def fp fm)
    from p files_eq content dirs_eq show ?thesis by blast
  qed
  from part1 part2 show ?thesis by blast
qed

theorem ordering_is_cosmetic_witness:
  "mset [Launch_screen, Pieces, Board_styles, App_icon, Ui_elements, Toolbar_icons] = mset main_order
   \<and> fst (main example_env example_state) = None
   \<and> fst (run_routines example_env
        [Launch_screen, Pieces, Board_styles, App_icon, Ui_elements, Toolbar_icons]
        example_state) = None
   \<and> mset (files (snd (run_routines example_env
        [Launch_screen, Pieces, Board_styles, App_icon, Ui_elements, Toolbar_icons]
        example_state))) = mset (files (snd (main example_env example_state)))"
proof -
  have h: "mset [Launch_screen, Pieces, Board_styles, App_icon, Ui_elements, Toolbar_icons] =
      mset main_order"
    by (simp add: main_order_def)
  from ordering_is_cosmetic [OF h, of example_env example_state] h main_example_completes
  show ?thesis by blast
qed

end
